theory Spec2Isabelle
  imports Main "HOL-Library.Word"
begin

section \<open>JavaScript values used by both programs\<close>

text \<open>
  The export file and the records built from it are modelled with typed records, as the
  interface of the export describes them: a property that may be missing is an
  \<open>option\<close>, and \<open>None\<close> is the \<open>undefined\<close> of reading it. Identifiers, ISBNs and
  dates are strings (a number in their place is taken as its decimal string). Strings
  are lists of code units below 256. A string option is truthy when it is present and
  not the empty string.
\<close>

definition truthy_str :: "string option \<Rightarrow> bool" where
  "truthy_str v = (case v of None \<Rightarrow> False | Some s \<Rightarrow> s \<noteq> [])"

text \<open>\<open>a || b\<close> on optional strings.\<close>

definition js_or :: "string option \<Rightarrow> string option \<Rightarrow> string option" where
  "js_or a b = (if truthy_str a then a else b)"

text \<open>\<open>String(v)\<close> of a truthy optional string, as the template literals and
  \<open>cleanISBN\<close> use it; \<open>undefined\<close> prints as the word.\<close>

definition js_String :: "string option \<Rightarrow> string" where
  "js_String v = (case v of None \<Rightarrow> ''undefined'' | Some s \<Rightarrow> s)"

datatype error = SyntaxError | TypeError | NetworkError | HttpError nat | IOError

section \<open>The export file\<close>

record edition =
  isbn :: "string option"
  format :: "string option"
  type :: "string option"

record raw_book =
  title :: "string option"
  bookId :: "string option"
  bookid :: "string option"
  editions :: "edition list option"
  finishedDate :: "string option"
  date :: "string option"

record category =
  ctype :: "string option"
  books :: "raw_book list option"

text \<open>The parsed export: an array of category objects, or the flat object keyed by
  category name.\<close>

datatype export = Buckets "category list" | Flat "(string \<times> raw_book list) list"

section \<open>script.js: the normalizer\<close>

subsection \<open>cleanISBN\<close>

text \<open>
  \<open>String(isbn).replace(/[^0-9X]/gi, '')\<close>. With the \<open>i\<close> flag a character
  belongs to the class \<open>[0-9X]\<close> when its canonical form (its upper-case letter) is
  the canonical form of a member of the class; the negated class matches every other
  character, and each match is replaced by the empty string.
\<close>

definition canonicalize :: "char \<Rightarrow> char" where
  "canonicalize c =
     (let n = (of_char c :: nat) in if 97 \<le> n \<and> n \<le> 122 then char_of (n - 32) else c)"

definition class_0_9X :: "char list" where
  "class_0_9X = ''0123456789X''"

definition matches_not_0_9X_i :: "char \<Rightarrow> bool" where
  "matches_not_0_9X_i c = (canonicalize c \<notin> set (map canonicalize class_0_9X))"

definition replace_not_0_9X_gi :: "string \<Rightarrow> string" where
  "replace_not_0_9X_gi s = filter (\<lambda>c. \<not> matches_not_0_9X_i c) s"

definition cleanISBN :: "string \<Rightarrow> string" where
  "cleanISBN raw = replace_not_0_9X_gi raw"

subsection \<open>extractAllISBNs\<close>

definition is_eBook :: "edition \<Rightarrow> bool" where
  "is_eBook e = (format e = Some ''eBook'' \<or> type e = Some ''eBook'')"

definition is_audioBook :: "edition \<Rightarrow> bool" where
  "is_audioBook e = (format e = Some ''audioBook'' \<or> type e = Some ''audioBook'')"

text \<open>The first loop pushes the cleaned ISBN of every eBook edition.\<close>

fun eBook_loop :: "edition list \<Rightarrow> string list \<Rightarrow> string list" where
  "eBook_loop [] isbns = isbns"
| "eBook_loop (e # es) isbns =
     (if is_eBook e \<and> truthy_str (isbn e)
      then eBook_loop es (isbns @ [cleanISBN (js_String (isbn e))])
      else eBook_loop es isbns)"

text \<open>The second loop pushes the cleaned ISBN of an audioBook edition unless the list
  includes it already.\<close>

fun audioBook_loop :: "edition list \<Rightarrow> string list \<Rightarrow> string list" where
  "audioBook_loop [] isbns = isbns"
| "audioBook_loop (e # es) isbns =
     (if is_audioBook e \<and> truthy_str (isbn e)
      then (let cleaned = cleanISBN (js_String (isbn e))
            in if cleaned \<notin> set isbns then audioBook_loop es (isbns @ [cleaned])
               else audioBook_loop es isbns)
      else audioBook_loop es isbns)"

text \<open>The third loop does the same for every edition that has an ISBN.\<close>

fun other_loop :: "edition list \<Rightarrow> string list \<Rightarrow> string list" where
  "other_loop [] isbns = isbns"
| "other_loop (e # es) isbns =
     (if truthy_str (isbn e)
      then (let cleaned = cleanISBN (js_String (isbn e))
            in if cleaned \<notin> set isbns then other_loop es (isbns @ [cleaned])
               else other_loop es isbns)
      else other_loop es isbns)"

text \<open>\<open>editions\<close> absent (or not an array) gives the empty list.\<close>

definition extractAllISBNs :: "edition list option \<Rightarrow> string list" where
  "extractAllISBNs eds =
     (case eds of
        None \<Rightarrow> []
      | Some es \<Rightarrow> other_loop es (audioBook_loop es (eBook_loop es [])))"

text \<open>The first occurrences of a list, in their order: the result of pushing its
  elements one by one unless already included. It serves to state the order of the
  extracted list.\<close>

primrec keep_first :: "'a list \<Rightarrow> 'a list" where
  "keep_first [] = []"
| "keep_first (x # xs) = x # filter (\<lambda>y. y \<noteq> x) (keep_first xs)"

text \<open>The cleaned ISBN of an edition, and the editions that have one.\<close>

definition cleaned_isbn :: "edition \<Rightarrow> string" where
  "cleaned_isbn e = cleanISBN (js_String (isbn e))"

definition has_isbn :: "edition \<Rightarrow> bool" where
  "has_isbn e = truthy_str (isbn e)"

subsection \<open>extractYear\<close>

text \<open>
  The \<open>Date\<close> object is the platform's: \<open>getTime\<close> stands for
  \<open>new Date(s).getTime()\<close>, with \<open>None\<close> for the NaN of an invalid date, and
  \<open>getFullYear\<close> for the year of a time value in the local time zone.
\<close>

record date_lib =
  getTime :: "string \<Rightarrow> int option"
  getFullYear :: "int \<Rightarrow> int"

definition extractYear :: "date_lib \<Rightarrow> string option \<Rightarrow> int option" where
  "extractYear lib dateString =
     (if \<not> truthy_str dateString then None
      else (case getTime lib (js_String dateString) of
              None \<Rightarrow> None
            | Some t \<Rightarrow> Some (getFullYear lib t)))"

subsection \<open>processBooks\<close>

text \<open>A processed record; \<open>nb_date\<close> is the property \<open>finishedDate\<close> in the finished
  list and \<open>date\<close> in the saved list.\<close>

record norm_book =
  nb_title :: "string option"
  nb_bookId :: "string option"
  nb_isbns :: "string list"
  nb_date :: "string option"
  nb_year :: "int option"

record state =
  finishedBooks :: "norm_book list"
  savedBooks :: "norm_book list"
  activeTab :: string

text \<open>\<open>findCategory\<close>: the \<open>books\<close> of the first bucket of that type, which may be
  \<open>undefined\<close>, else the empty array; for the flat shape \<open>data[type] || []\<close>.\<close>

definition findCategory :: "export \<Rightarrow> string \<Rightarrow> raw_book list option" where
  "findCategory data t =
     (case data of
        Buckets cats \<Rightarrow>
          (case find (\<lambda>item. ctype item = Some t) cats of
             Some category \<Rightarrow> books category
           | None \<Rightarrow> Some [])
      | Flat kvs \<Rightarrow>
          (case map_of kvs t of Some bs \<Rightarrow> Some bs | None \<Rightarrow> Some []))"

definition finished_record :: "date_lib \<Rightarrow> raw_book \<Rightarrow> norm_book" where
  "finished_record lib book =
     \<lparr> nb_title = title book,
       nb_bookId = bookId book,
       nb_isbns = extractAllISBNs (editions book),
       nb_date = finishedDate book,
       nb_year = extractYear lib (finishedDate book) \<rparr>"

definition saved_record :: "date_lib \<Rightarrow> raw_book \<Rightarrow> norm_book" where
  "saved_record lib book =
     \<lparr> nb_title = title book,
       nb_bookId = js_or (bookid book) (bookId book),
       nb_isbns = extractAllISBNs (editions book),
       nb_date = date book,
       nb_year = extractYear lib (date book) \<rparr>"

text \<open>The filter \<open>book.year && book.title\<close>: the year is neither null nor 0.\<close>

definition has_year_and_title :: "norm_book \<Rightarrow> bool" where
  "has_year_and_title book =
     ((case nb_year book of None \<Rightarrow> False | Some y \<Rightarrow> y \<noteq> 0) \<and> truthy_str (nb_title book))"

text \<open>The time value \<open>new Date(book.date)\<close> that the comparator subtracts. Every record
  that passed the filter has a valid date; the 0 stands for the NaN of the others, which
  the sort never sees.\<close>

definition time_of :: "date_lib \<Rightarrow> norm_book \<Rightarrow> int" where
  "time_of lib book =
     (case nb_date book of
        None \<Rightarrow> 0
      | Some s \<Rightarrow> (case getTime lib s of None \<Rightarrow> 0 | Some t \<Rightarrow> t))"

text \<open>\<open>sort((a, b) => new Date(b.date) - new Date(a.date))\<close>: the stable sort by
  descending time value.\<close>

definition sort_by_date_desc :: "date_lib \<Rightarrow> norm_book list \<Rightarrow> norm_book list" where
  "sort_by_date_desc lib bs = sort_key (\<lambda>b. - time_of lib b) bs"

text \<open>\<open>processBooks\<close> throws a TypeError when the bucket it found has no \<open>books\<close>
  array to map over.\<close>

definition processBooks :: "date_lib \<Rightarrow> export \<Rightarrow> state \<Rightarrow> error + state" where
  "processBooks lib data st =
     (case findCategory data ''myfinishedbooks'' of
        None \<Rightarrow> Inl TypeError
      | Some finishedRaw \<Rightarrow>
          (case findCategory data ''mysavedbooks'' of
             None \<Rightarrow> Inl TypeError
           | Some savedRaw \<Rightarrow>
               Inr (st\<lparr> finishedBooks :=
                           sort_by_date_desc lib
                             (filter has_year_and_title (map (finished_record lib) finishedRaw)),
                         savedBooks :=
                           sort_by_date_desc lib
                             (filter has_year_and_title (map (saved_record lib) savedRaw)) \<rparr>)))"

text \<open>A date library for examples: it knows the dates of a table and no others.\<close>

definition table_dates :: "(string \<times> int \<times> int) list \<Rightarrow> date_lib" where
  "table_dates tbl =
     \<lparr> getTime = (\<lambda>s. map_option fst (map_of tbl s)),
       getFullYear = (\<lambda>t. (case find (\<lambda>(s, t', y). t' = t) tbl of
                              Some (s, t', y) \<Rightarrow> y | None \<Rightarrow> 1970)) \<rparr>"

section \<open>fetch-covers.js: the cover fetcher\<close>

subsection \<open>loadBooks\<close>

text \<open>A book of the fetcher: \<open>{id, title, isbns}\<close>.\<close>

record book =
  id' :: "string option"
  btitle :: string
  isbns :: "string list"

text \<open>The inner loop over \<open>book.editions\<close>: every truthy \<open>edition.isbn\<close> is pushed,
  cleaned by the same regular expression as \<open>cleanISBN\<close>.\<close>

fun edition_isbns :: "edition list \<Rightarrow> string list \<Rightarrow> string list" where
  "edition_isbns [] acc = acc"
| "edition_isbns (e # es) acc =
     (if truthy_str (isbn e)
      then edition_isbns es (acc @ [replace_not_0_9X_gi (js_String (isbn e))])
      else edition_isbns es acc)"

text \<open>The body of the loop over the books of a category: what it pushes on \<open>books\<close>.\<close>

definition book_of_raw :: "raw_book \<Rightarrow> book list" where
  "book_of_raw b =
     (if truthy_str (title b) \<and> editions b \<noteq> None
      then (let found = edition_isbns (case editions b of Some es \<Rightarrow> es | None \<Rightarrow> []) []
            in if length found > 0
               then [\<lparr> id' = js_or (bookId b) (bookid b),
                       btitle = js_String (title b),
                       isbns = found \<rparr>]
               else [])
      else [])"

definition books_of_category :: "category \<Rightarrow> book list" where
  "books_of_category c =
     (if ctype c = Some ''myfinishedbooks'' \<or> ctype c = Some ''mysavedbooks''
      then concat (map book_of_raw (case books c of Some bs \<Rightarrow> bs | None \<Rightarrow> []))
      else [])"

text \<open>The final filter with the \<open>seen\<close> set: the first book of each id is kept.\<close>

fun remove_seen :: "string option list \<Rightarrow> book list \<Rightarrow> book list" where
  "remove_seen seen [] = []"
| "remove_seen seen (b # bs) =
     (if id' b \<in> set seen then remove_seen seen bs
      else b # remove_seen (id' b # seen) bs)"

text \<open>
  \<open>loadBooks\<close> reads the export file: \<open>None\<close> is a file that \<open>JSON.parse\<close> rejects
  (SyntaxError). The loop \<open>for (const category of data)\<close> needs an array: on the flat
  object it throws a TypeError.
\<close>

definition loadBooks :: "export option \<Rightarrow> error + book list" where
  "loadBooks file =
     (case file of
        None \<Rightarrow> Inl SyntaxError
      | Some (Flat kvs) \<Rightarrow> Inl TypeError
      | Some (Buckets data) \<Rightarrow> Inr (remove_seen [] (concat (map books_of_category data))))"

subsection \<open>Responses of the book services\<close>

text \<open>
  A response body parsed by \<open>JSON.parse\<close> is any JSON value; a JavaScript value is a
  \<open>json option\<close>, \<open>None\<close> being \<open>undefined\<close>. Numbers are restricted to the
  integers, which a template literal prints in decimal (as JavaScript does below
  \<open>10^21\<close>).
\<close>

datatype json =
  JNull | JBool bool | JNum int | JStr string | JArr "json list" | JObj "(string \<times> json) list"

fun truthy :: "json option \<Rightarrow> bool" where
  "truthy None = False"
| "truthy (Some JNull) = False"
| "truthy (Some (JBool b)) = b"
| "truthy (Some (JNum n)) = (n \<noteq> 0)"
| "truthy (Some (JStr s)) = (s \<noteq> [])"
| "truthy (Some (JArr xs)) = True"
| "truthy (Some (JObj kvs)) = True"

text \<open>\<open>v.name\<close>, for the property names the fetcher reads (none of them is a built-in
  property of an array, string, number or boolean): a TypeError on \<open>undefined\<close> and
  \<open>null\<close>.\<close>

fun get_prop :: "json option \<Rightarrow> string \<Rightarrow> error + json option" where
  "get_prop None name = Inl TypeError"
| "get_prop (Some JNull) name = Inl TypeError"
| "get_prop (Some (JObj kvs)) name = Inr (map_of kvs name)"
| "get_prop (Some v) name = Inr None"

text \<open>\<open>v[0]\<close>: the first element of an array, the first character of a string, the
  property \<open>"0"\<close> of an object.\<close>

fun get_0 :: "json option \<Rightarrow> error + json option" where
  "get_0 None = Inl TypeError"
| "get_0 (Some JNull) = Inl TypeError"
| "get_0 (Some (JArr xs)) = Inr (case xs of [] \<Rightarrow> None | x # _ \<Rightarrow> Some x)"
| "get_0 (Some (JStr s)) = Inr (case s of [] \<Rightarrow> None | c # _ \<Rightarrow> Some (JStr [c]))"
| "get_0 (Some (JObj kvs)) = Inr (map_of kvs ''0'')"
| "get_0 (Some v) = Inr None"

text \<open>Optional chaining \<open>v?.name\<close> and \<open>v?.[0]\<close>: \<open>undefined\<close> on a nullish value.\<close>

definition opt_prop :: "json option \<Rightarrow> string \<Rightarrow> json option" where
  "opt_prop v name = (case get_prop v name of Inl e \<Rightarrow> None | Inr r \<Rightarrow> r)"

definition opt_0 :: "json option \<Rightarrow> json option" where
  "opt_0 v = (case get_0 v of Inl e \<Rightarrow> None | Inr r \<Rightarrow> r)"

text \<open>\<open>a || b\<close> and \<open>a || null\<close>.\<close>

definition or_else :: "json option \<Rightarrow> json option \<Rightarrow> json option" where
  "or_else a b = (if truthy a then a else b)"

definition or_null :: "json option \<Rightarrow> json" where
  "or_null a = (case a of None \<Rightarrow> JNull | Some v \<Rightarrow> if truthy a then v else JNull)"

definition bindE :: "error + 'a \<Rightarrow> ('a \<Rightarrow> error + 'b) \<Rightarrow> error + 'b" where
  "bindE m f = (case m of Inl e \<Rightarrow> Inl e | Inr x \<Rightarrow> f x)"

text \<open>\<open>a && b\<close> where \<open>b\<close> is computed from the truthy \<open>a\<close>.\<close>

definition and_then :: "json option \<Rightarrow> (json option \<Rightarrow> error + json option) \<Rightarrow> error + json option" where
  "and_then a f = (if truthy a then f a else Inr a)"

subsection \<open>Strings of the requests\<close>

fun dec_nat :: "nat \<Rightarrow> string" where
  "dec_nat n =
     (if n < 10 then [''0123456789'' ! n]
      else dec_nat (n div 10) @ [''0123456789'' ! (n mod 10)])"

definition dec_int :: "int \<Rightarrow> string" where
  "dec_int n = (if n < 0 then CHR ''-'' # dec_nat (nat (- n)) else dec_nat (nat n))"

fun join_comma :: "string list \<Rightarrow> string" where
  "join_comma [] = []"
| "join_comma [x] = x"
| "join_comma (x # y # ys) = x @ '','' @ join_comma (y # ys)"

text \<open>The string a template literal \<open>${v}\<close> makes of a JSON value.\<close>

fun json_String :: "json \<Rightarrow> string" where
  "json_String JNull = ''null''"
| "json_String (JBool b) = (if b then ''true'' else ''false'')"
| "json_String (JNum n) = dec_int n"
| "json_String (JStr s) = s"
| "json_String (JArr xs) =
     join_comma (map (\<lambda>x. if x = JNull then [] else json_String x) xs)"
| "json_String (JObj kvs) = ''[object Object]''"

definition template :: "json option \<Rightarrow> string" where
  "template v = (case v of None \<Rightarrow> ''undefined'' | Some j \<Rightarrow> json_String j)"

text \<open>\<open>s.replace(pat, rep)\<close> with a string pattern: the first occurrence only.\<close>

fun replace_first :: "string \<Rightarrow> string \<Rightarrow> string \<Rightarrow> string" where
  "replace_first pat rep [] = (if pat = [] then rep else [])"
| "replace_first pat rep (c # cs) =
     (if take (length pat) (c # cs) = pat then rep @ drop (length pat) (c # cs)
      else c # replace_first pat rep cs)"

definition is_word_char :: "char \<Rightarrow> bool" where
  "is_word_char c =
     (let n = (of_char c :: nat)
      in (48 \<le> n \<and> n \<le> 57) \<or> (65 \<le> n \<and> n \<le> 90) \<or> (97 \<le> n \<and> n \<le> 122) \<or> n = 95)"

definition is_space_char :: "char \<Rightarrow> bool" where
  "is_space_char c = (let n = (of_char c :: nat) in (9 \<le> n \<and> n \<le> 13) \<or> n = 32 \<or> n = 160)"

definition trim :: "string \<Rightarrow> string" where
  "trim s = rev (dropWhile is_space_char (rev (dropWhile is_space_char s)))"

text \<open>\<open>title.split(':')[0].split('.')[0].replace(/[^\w\s]/g, ' ').trim()\<close>\<close>

definition searchTitle :: "string \<Rightarrow> string" where
  "searchTitle t =
     trim (map (\<lambda>c. if is_word_char c \<or> is_space_char c then c else CHR '' '')
             (takeWhile (\<lambda>c. c \<noteq> CHR ''.'') (takeWhile (\<lambda>c. c \<noteq> CHR '':'') t)))"

definition hex_digit :: "nat \<Rightarrow> char" where
  "hex_digit n = ''0123456789ABCDEF'' ! n"

definition percent :: "nat \<Rightarrow> string" where
  "percent n = [CHR ''%'', hex_digit (n div 16), hex_digit (n mod 16)]"

text \<open>\<open>encodeURIComponent\<close> on code units below 256: the unreserved characters stay,
  the others are the percent-encoded bytes of their UTF-8 form.\<close>

definition encode_unit :: "char \<Rightarrow> string" where
  "encode_unit c =
     (let n = (of_char c :: nat)
      in if is_word_char c \<or> n \<in> {45, 46, 33, 126, 42, 39, 40, 41} then [c]
         else if n < 128 then percent n
         else percent (192 + n div 64) @ percent (128 + n mod 64))"

definition encodeURIComponent :: "string \<Rightarrow> string" where
  "encodeURIComponent s = concat (map encode_unit s)"

subsection \<open>fetchUrl and fetchJson\<close>

type_synonym buffer = "8 word list"

text \<open>
  The network is the platform's. \<open>respond\<close> gives what a request for a URL ends in,
  from the state of the outside world, and the next state: \<open>NoResponse\<close> when the
  request emits an error, otherwise the response that ends the chain of redirects that
  \<open>fetchUrl\<close> follows, with its status code and its body (the chunks concatenated),
  \<open>None\<close> when the stream of the body emits an error. Every request is taken to end.
  \<open>JSON_parse\<close> is \<open>JSON.parse(buffer.toString('utf8'))\<close>, \<open>None\<close> when it throws.
\<close>

datatype response = NoResponse | Response nat "buffer option"

record 'n platform =
  respond :: "string \<Rightarrow> 'n \<Rightarrow> response \<times> 'n"
  JSON_parse :: "buffer \<Rightarrow> json option"

text \<open>The state of the network as the run sees it, with the list of the URLs requested
  so far: every call of \<open>fetchUrl\<close> by the fetcher adds one.\<close>

record 'n net =
  outside :: 'n
  requests :: "string list"

text \<open>The promise of \<open>fetchUrl\<close> is rejected on a request error, on a status other
  than 200 and on a stream error; it is resolved with the body otherwise.\<close>

definition fetchUrl :: "'n platform \<Rightarrow> string \<Rightarrow> 'n net \<Rightarrow> (error + buffer) \<times> 'n net" where
  "fetchUrl pf url s =
     (case respond pf url (outside s) of
        (r, out) \<Rightarrow>
          ((case r of
              NoResponse \<Rightarrow> Inl NetworkError
            | Response statusCode body \<Rightarrow>
                (if statusCode \<noteq> 200 then Inl (HttpError statusCode)
                 else (case body of None \<Rightarrow> Inl NetworkError | Some chunks \<Rightarrow> Inr chunks))),
           \<lparr> outside = out, requests = requests s @ [url] \<rparr>))"

definition fetchJson :: "'n platform \<Rightarrow> string \<Rightarrow> 'n net \<Rightarrow> (error + json) \<times> 'n net" where
  "fetchJson pf url s =
     (case fetchUrl pf url s of
        (Inl e, s') \<Rightarrow> (Inl e, s')
      | (Inr body, s') \<Rightarrow>
          (case JSON_parse pf body of
             None \<Rightarrow> (Inl SyntaxError, s')
           | Some j \<Rightarrow> (Inr j, s')))"

subsection \<open>tryOpenLibrary\<close>

text \<open>What a successful attempt returns: \<open>{buffer, author}\<close>.\<close>

record found =
  buffer :: buffer
  found_author :: json

text \<open>\<open>searchData.docs && searchData.docs[0]\<close>\<close>

definition docs_0 :: "json \<Rightarrow> error + json option" where
  "docs_0 searchData =
     bindE (get_prop (Some searchData) ''docs'') (\<lambda>docs. and_then docs get_0)"

text \<open>\<open>searchData.docs && searchData.docs[0] && searchData.docs[0].cover_i\<close>\<close>

definition docs_0_cover_i :: "json \<Rightarrow> error + json option" where
  "docs_0_cover_i searchData =
     bindE (docs_0 searchData) (\<lambda>doc. and_then doc (\<lambda>d. get_prop d ''cover_i''))"

text \<open>\<open>doc.author_name?.[0] || null\<close>\<close>

definition author_name_0 :: "json option \<Rightarrow> error + json" where
  "author_name_0 doc = bindE (get_prop doc ''author_name'') (\<lambda>names. Inr (or_null (opt_0 names)))"

text \<open>The second half of the attempt: the cover by ISBN.\<close>

definition tryDirect :: "'n platform \<Rightarrow> string \<Rightarrow> 'n net \<Rightarrow> found option \<times> 'n net" where
  "tryDirect pf i s =
     (case fetchUrl pf (''https://covers.openlibrary.org/b/isbn/'' @ i @ ''-L.jpg'') s of
        (Inl e, s') \<Rightarrow> (None, s')
      | (Inr directData, s') \<Rightarrow>
          (if length directData > 1000
           then (Some \<lparr> buffer = directData, found_author = JNull \<rparr>, s')
           else (None, s')))"

text \<open>Every exception inside the \<open>try\<close> block ends in the \<open>catch\<close>, after which the
  function returns \<open>null\<close>.\<close>

definition tryOpenLibrary :: "'n platform \<Rightarrow> string \<Rightarrow> 'n net \<Rightarrow> found option \<times> 'n net" where
  "tryOpenLibrary pf i s =
     (case fetchJson pf (''https://openlibrary.org/search.json?isbn='' @ i @ ''&limit=1'') s of
        (Inl e, s1) \<Rightarrow> (None, s1)
      | (Inr searchData, s1) \<Rightarrow>
          (case docs_0_cover_i searchData of
             Inl e \<Rightarrow> (None, s1)
           | Inr coverId \<Rightarrow>
               (if truthy coverId
                then (case fetchUrl pf
                             (''https://covers.openlibrary.org/b/id/'' @ template coverId @ ''-L.jpg'') s1 of
                        (Inl e, s2) \<Rightarrow> (None, s2)
                      | (Inr imageData, s2) \<Rightarrow>
                          (if length imageData > 1000
                           then (case bindE (docs_0 searchData) author_name_0 of
                                   Inl e \<Rightarrow> (None, s2)
                                 | Inr a \<Rightarrow> (Some \<lparr> buffer = imageData, found_author = a \<rparr>, s2))
                           else tryDirect pf i s2))
                else tryDirect pf i s1)))"

subsection \<open>tryGoogleBooks\<close>

text \<open>\<open>searchData.items && searchData.items[0]\<close>\<close>

definition items_0 :: "json \<Rightarrow> error + json option" where
  "items_0 searchData =
     bindE (get_prop (Some searchData) ''items'') (\<lambda>items. and_then items get_0)"

text \<open>\<open>item.volumeInfo?.imageLinks\<close> and \<open>item.volumeInfo?.authors?.[0]\<close>\<close>

definition volume_imageLinks :: "json option \<Rightarrow> error + json option" where
  "volume_imageLinks item =
     bindE (get_prop item ''volumeInfo'') (\<lambda>info. Inr (opt_prop info ''imageLinks''))"

definition volume_authors_0 :: "json option \<Rightarrow> error + json option" where
  "volume_authors_0 item =
     bindE (get_prop item ''volumeInfo'') (\<lambda>info. Inr (opt_0 (opt_prop info ''authors'')))"

text \<open>The preferred image link, with its two \<open>replace\<close> calls: a TypeError unless the
  chosen link is a string.\<close>

definition imageUrl :: "json option \<Rightarrow> error + string" where
  "imageUrl imageLinks =
     bindE (get_prop imageLinks ''large'') (\<lambda>large.
     bindE (get_prop imageLinks ''medium'') (\<lambda>medium.
     bindE (get_prop imageLinks ''thumbnail'') (\<lambda>thumbnail.
     bindE (get_prop imageLinks ''smallThumbnail'') (\<lambda>smallThumbnail.
       (case or_else large (or_else medium (or_else thumbnail smallThumbnail)) of
          Some (JStr u) \<Rightarrow>
            Inr (replace_first ''&edge=curl'' [] (replace_first ''http://'' ''https://'' u))
        | _ \<Rightarrow> Inl TypeError)))))"

definition tryGoogleBooks :: "'n platform \<Rightarrow> string \<Rightarrow> 'n net \<Rightarrow> found option \<times> 'n net" where
  "tryGoogleBooks pf i s =
     (case fetchJson pf (''https://www.googleapis.com/books/v1/volumes?q=isbn:'' @ i) s of
        (Inl e, s1) \<Rightarrow> (None, s1)
      | (Inr searchData, s1) \<Rightarrow>
          (case items_0 searchData of
             Inl e \<Rightarrow> (None, s1)
           | Inr item \<Rightarrow>
               (if truthy item
                then (case volume_imageLinks item of
                        Inl e \<Rightarrow> (None, s1)
                      | Inr imageLinks \<Rightarrow>
                          (if truthy imageLinks
                           then (case imageUrl imageLinks of
                                   Inl e \<Rightarrow> (None, s1)
                                 | Inr url \<Rightarrow>
                                     (case fetchUrl pf url s1 of
                                        (Inl e, s2) \<Rightarrow> (None, s2)
                                      | (Inr imageData, s2) \<Rightarrow>
                                          (if length imageData > 2000
                                           then (case volume_authors_0 item of
                                                   Inl e \<Rightarrow> (None, s2)
                                                 | Inr a \<Rightarrow>
                                                     (Some \<lparr> buffer = imageData,
                                                             found_author = or_null a \<rparr>, s2))
                                           else (None, s2))))
                           else (None, s1)))
                else (None, s1))))"

subsection \<open>tryOpenLibraryTitleSearch\<close>

text \<open>\<open>docs.find(doc => doc.cover_i)\<close> on an array: the callback throws on a
  \<open>null\<close> element it reaches.\<close>

fun find_cover_i :: "json list \<Rightarrow> error + json option" where
  "find_cover_i [] = Inr None"
| "find_cover_i (doc # ds) =
     (case get_prop (Some doc) ''cover_i'' of
        Inl e \<Rightarrow> Inl e
      | Inr c \<Rightarrow> if truthy c then Inr (Some doc) else find_cover_i ds)"

text \<open>\<open>searchData.docs?.find(...)\<close>: \<open>undefined\<close> for nullish \<open>docs\<close>, a TypeError
  when \<open>docs\<close> is not an array (it has no method \<open>find\<close>).\<close>

definition docs_find :: "json \<Rightarrow> error + json option" where
  "docs_find searchData =
     bindE (get_prop (Some searchData) ''docs'') (\<lambda>docs.
       (case docs of
          None \<Rightarrow> Inr None
        | Some JNull \<Rightarrow> Inr None
        | Some (JArr ds) \<Rightarrow> find_cover_i ds
        | Some _ \<Rightarrow> Inl TypeError))"

definition tryOpenLibraryTitleSearch ::
  "'n platform \<Rightarrow> string \<Rightarrow> 'n net \<Rightarrow> found option \<times> 'n net" where
  "tryOpenLibraryTitleSearch pf t s =
     (case fetchJson pf (''https://openlibrary.org/search.json?title=''
                           @ encodeURIComponent (searchTitle t) @ ''&limit=5'') s of
        (Inl e, s1) \<Rightarrow> (None, s1)
      | (Inr searchData, s1) \<Rightarrow>
          (case bindE (docs_find searchData)
                  (\<lambda>withCover. bindE (and_then withCover (\<lambda>d. get_prop d ''cover_i''))
                     (\<lambda>c. Inr (withCover, c))) of
             Inl e \<Rightarrow> (None, s1)
           | Inr (withCover, coverId) \<Rightarrow>
               (if truthy coverId
                then (case fetchUrl pf
                             (''https://covers.openlibrary.org/b/id/'' @ template coverId @ ''-L.jpg'') s1 of
                        (Inl e, s2) \<Rightarrow> (None, s2)
                      | (Inr imageData, s2) \<Rightarrow>
                          (if length imageData > 1000
                           then (case author_name_0 withCover of
                                   Inl e \<Rightarrow> (None, s2)
                                 | Inr a \<Rightarrow> (Some \<lparr> buffer = imageData, found_author = a \<rparr>, s2))
                           else (None, s2)))
                else (None, s1))))"

subsection \<open>tryGetAuthorOnly\<close>

text \<open>The loop over the ISBNs: each iteration has its own \<open>try\<close>, and the first
  truthy author is returned.\<close>

fun author_by_isbn :: "'n platform \<Rightarrow> string list \<Rightarrow> 'n net \<Rightarrow> json option \<times> 'n net" where
  "author_by_isbn pf [] s = (None, s)"
| "author_by_isbn pf (i # rest) s =
     (case fetchJson pf (''https://www.googleapis.com/books/v1/volumes?q=isbn:'' @ i) s of
        (Inl e, s1) \<Rightarrow> author_by_isbn pf rest s1
      | (Inr searchData, s1) \<Rightarrow>
          (case bindE (items_0 searchData)
                  (\<lambda>item. if truthy item then volume_authors_0 item else Inr None) of
             Inl e \<Rightarrow> author_by_isbn pf rest s1
           | Inr a \<Rightarrow> if truthy a then (a, s1) else author_by_isbn pf rest s1))"

text \<open>The title search for an author, with \<open>limit=1\<close>.\<close>

definition author_by_title :: "'n platform \<Rightarrow> string \<Rightarrow> 'n net \<Rightarrow> json \<times> 'n net" where
  "author_by_title pf t s =
     (case fetchJson pf (''https://openlibrary.org/search.json?title=''
                           @ encodeURIComponent (searchTitle t) @ ''&limit=1'') s of
        (Inl e, s1) \<Rightarrow> (JNull, s1)
      | (Inr searchData, s1) \<Rightarrow>
          (case bindE (docs_0 searchData)
                  (\<lambda>doc. if truthy doc then bindE (author_name_0 doc) (\<lambda>a. Inr (Some a))
                          else Inr None) of
             Inl e \<Rightarrow> (JNull, s1)
           | Inr (Some a) \<Rightarrow> (a, s1)
           | Inr None \<Rightarrow> (JNull, s1)))"

definition tryGetAuthorOnly :: "'n platform \<Rightarrow> string list \<Rightarrow> string \<Rightarrow> 'n net \<Rightarrow> json \<times> 'n net" where
  "tryGetAuthorOnly pf is t s =
     (case author_by_isbn pf is s of
        (Some a, s1) \<Rightarrow> (a, s1)
      | (None, s1) \<Rightarrow> author_by_title pf t s1)"

subsection \<open>path.join\<close>

text \<open>
  \<open>path.join\<close> of Node on a POSIX system: the non-empty arguments are joined with a
  slash and the result is normalised. Normalisation drops empty segments and \<open>.\<close>
  segments, and lets a \<open>..\<close> segment remove the segment before it; where there is none
  (or only \<open>..\<close> segments) a relative path keeps the \<open>..\<close>.
\<close>

fun split_slash :: "string \<Rightarrow> string list" where
  "split_slash [] = [[]]"
| "split_slash (c # cs) =
     (if c = CHR ''/'' then [] # split_slash cs
      else (case split_slash cs of
              [] \<Rightarrow> [[c]]
            | seg # segs \<Rightarrow> (c # seg) # segs))"

definition normalize_step :: "bool \<Rightarrow> string list \<Rightarrow> string \<Rightarrow> string list" where
  "normalize_step allowAboveRoot res seg =
     (if seg = [] \<or> seg = ''.'' then res
      else if seg = ''..''
      then (if res \<noteq> [] \<and> last res \<noteq> ''..'' then butlast res
            else if allowAboveRoot then res @ [''..''] else res)
      else res @ [seg])"

fun join_slash :: "string list \<Rightarrow> string" where
  "join_slash [] = []"
| "join_slash [x] = x"
| "join_slash (x # y # ys) = x @ ''/'' @ join_slash (y # ys)"

definition normalizeString :: "string \<Rightarrow> bool \<Rightarrow> string" where
  "normalizeString p allowAboveRoot =
     join_slash (foldl (normalize_step allowAboveRoot) [] (split_slash p))"

definition normalize :: "string \<Rightarrow> string" where
  "normalize p =
     (if p = [] then ''.''
      else (let isAbsolute = (hd p = CHR ''/'');
                trailingSeparator = (last p = CHR ''/'');
                q = normalizeString p (\<not> isAbsolute)
            in if q = [] then (if isAbsolute then ''/'' else if trailingSeparator then ''./'' else ''.'')
               else (let q' = (if trailingSeparator then q @ ''/'' else q)
                     in if isAbsolute then CHR ''/'' # q' else q')))"

definition path_join :: "string \<Rightarrow> string \<Rightarrow> string" where
  "path_join a b =
     (if a = [] \<and> b = [] then ''.''
      else if a = [] then normalize b
      else if b = [] then normalize a
      else normalize (a @ ''/'' @ b))"

subsection \<open>main\<close>

text \<open>An entry of covers.json: \<open>{path, author}\<close>, each of them possibly \<open>null\<close>.\<close>

record cover_entry =
  path :: "string option"
  author :: json

text \<open>
  The file system is the platform's, like the network: \<open>existsSync\<close> says whether a
  path exists in a state of the disk, and \<open>writeFileSync\<close> gives the state after a write,
  or \<open>None\<close> when it throws (a missing directory, a name the file system refuses, a full
  disk). What is written is an image or the JSON text of the map.
\<close>

datatype content = Image buffer | MapJson "string \<rightharpoonup> cover_entry"

record 'f file_system =
  existsSync :: "'f \<Rightarrow> string \<Rightarrow> bool"
  writeFileSync :: "'f \<Rightarrow> string \<Rightarrow> content \<Rightarrow> 'f option"

text \<open>
  What the run reads and writes: the disk, the object parsed from covers.json (\<open>None\<close>
  when the file is missing or is not JSON, which \<open>main\<close> treats as the empty object)
  and the network.
\<close>

record ('n, 'f) world =
  disk :: 'f
  covers_json :: "(string \<rightharpoonup> cover_entry) option"
  net :: "'n net"

text \<open>The property key \<open>${book.id}\<close> made of an id.\<close>

definition key_of :: "book \<Rightarrow> string" where
  "key_of b = js_String (id' b)"

text \<open>The file of a book, \<open>path.join(COVERS_DIR, `${book.id}.jpg`)\<close>, and the string
  \<open>covers/${book.id}.jpg\<close> that the entry records; the two differ when the id has
  segments that \<open>path.join\<close> normalises away.\<close>

definition cover_file :: "string \<Rightarrow> string" where
  "cover_file k = path_join ''covers'' (k @ ''.jpg'')"

definition entry_path :: "string \<Rightarrow> string" where
  "entry_path k = ''covers/'' @ k @ ''.jpg''"

definition coverPath :: "book \<Rightarrow> string" where
  "coverPath b = cover_file (key_of b)"

text \<open>
  The maps are plain objects. \<open>existingCoversMap[book.id]\<close> reads the own property that
  \<open>JSON.parse\<close> made; for another key it finds nothing or a member of
  \<open>Object.prototype\<close>, which has neither \<open>path\<close> nor \<open>author\<close> and passes neither
  test of \<open>main\<close>, so that both read as \<open>None\<close>. \<open>coversMap[book.id] = entry\<close>
  defines an own property, except for the key \<open>__proto__\<close>: that assignment replaces the
  prototype of \<open>coversMap\<close>, defines no property, and \<open>JSON.stringify\<close> writes no key
  for it.
\<close>

definition set_entry ::
  "(string \<rightharpoonup> cover_entry) \<Rightarrow> string \<Rightarrow> cover_entry \<Rightarrow> (string \<rightharpoonup> cover_entry)" where
  "set_entry coversMap k e = (if k = ''__proto__'' then coversMap else coversMap(k \<mapsto> e))"

text \<open>The two loops \<open>for (const isbn of book.isbns)\<close>: the first result ends the loop.\<close>

fun first_found ::
  "(string \<Rightarrow> 'n net \<Rightarrow> found option \<times> 'n net) \<Rightarrow> string list \<Rightarrow> 'n net
     \<Rightarrow> found option \<times> 'n net" where
  "first_found attempt [] s = (None, s)"
| "first_found attempt (i # rest) s =
     (case attempt i s of
        (Some r, s') \<Rightarrow> (Some r, s')
      | (None, s') \<Rightarrow> first_found attempt rest s')"

text \<open>The cascade of the three sources.\<close>

definition find_cover :: "'n platform \<Rightarrow> book \<Rightarrow> 'n net \<Rightarrow> found option \<times> 'n net" where
  "find_cover pf b s =
     (case first_found (tryOpenLibrary pf) (isbns b) s of
        (Some r, s1) \<Rightarrow> (Some r, s1)
      | (None, s1) \<Rightarrow>
          (case first_found (tryGoogleBooks pf) (isbns b) s1 of
             (Some r, s2) \<Rightarrow> (Some r, s2)
           | (None, s2) \<Rightarrow> tryOpenLibraryTitleSearch pf (btitle b) s2))"

text \<open>\<open>existingEntry?.author || null\<close>\<close>

definition existing_author :: "cover_entry option \<Rightarrow> json" where
  "existing_author existingEntry =
     (case existingEntry of None \<Rightarrow> JNull | Some e \<Rightarrow> or_null (Some (author e)))"

text \<open>\<open>existingEntry && existingEntry.path === null && existingEntry.author\<close>\<close>

definition no_cover_has_author :: "cover_entry option \<Rightarrow> bool" where
  "no_cover_has_author existingEntry =
     (case existingEntry of None \<Rightarrow> False | Some e \<Rightarrow> path e = None \<and> truthy (Some (author e)))"

text \<open>One iteration of the loop of \<open>main\<close>, on the map being built and the world. A
  write that throws ends the run: \<open>fs.writeFileSync\<close> is outside any \<open>try\<close>.\<close>

definition process_book ::
  "'n platform \<Rightarrow> 'f file_system \<Rightarrow> (string \<rightharpoonup> cover_entry) \<Rightarrow> book
     \<Rightarrow> (string \<rightharpoonup> cover_entry) \<times> ('n, 'f) world
     \<Rightarrow> error + (string \<rightharpoonup> cover_entry) \<times> ('n, 'f) world" where
  "process_book pf fsys existingCoversMap b st =
     (case st of (coversMap, w) \<Rightarrow>
        (let existingEntry = existingCoversMap (key_of b)
         in if existsSync fsys (disk w) (coverPath b)
            then Inr (set_entry coversMap (key_of b)
                        \<lparr> path = Some (entry_path (key_of b)),
                          author = existing_author existingEntry \<rparr>, w)
            else if no_cover_has_author existingEntry
            then Inr ((case existingEntry of
                         None \<Rightarrow> coversMap
                       | Some e \<Rightarrow> set_entry coversMap (key_of b) e), w)
            else (case find_cover pf b (net w) of
                    (Some result, s) \<Rightarrow>
                      (case writeFileSync fsys (disk w) (coverPath b) (Image (buffer result)) of
                         None \<Rightarrow> Inl IOError
                       | Some d \<Rightarrow>
                           Inr (set_entry coversMap (key_of b)
                                  \<lparr> path = Some (entry_path (key_of b)),
                                    author = found_author result \<rparr>,
                                w\<lparr> disk := d, net := s \<rparr>))
                  | (None, s) \<Rightarrow>
                      (case tryGetAuthorOnly pf (isbns b) (btitle b) s of
                         (a, s') \<Rightarrow>
                           Inr (set_entry coversMap (key_of b) \<lparr> path = None, author = a \<rparr>,
                                w\<lparr> net := s' \<rparr>)))))"

fun process_all ::
  "'n platform \<Rightarrow> 'f file_system \<Rightarrow> (string \<rightharpoonup> cover_entry) \<Rightarrow> book list
     \<Rightarrow> (string \<rightharpoonup> cover_entry) \<times> ('n, 'f) world
     \<Rightarrow> error + (string \<rightharpoonup> cover_entry) \<times> ('n, 'f) world" where
  "process_all pf fsys existingCoversMap [] st = Inr st"
| "process_all pf fsys existingCoversMap (b # bs) st =
     (case process_book pf fsys existingCoversMap b st of
        Inl e \<Rightarrow> Inl e
      | Inr st' \<Rightarrow> process_all pf fsys existingCoversMap bs st')"

text \<open>The map \<open>main\<close> loads from covers.json; it stays the empty object when the
  file is missing or cannot be parsed.\<close>

definition existing_covers :: "('n, 'f) world \<Rightarrow> (string \<rightharpoonup> cover_entry)" where
  "existing_covers w = (case covers_json w of None \<Rightarrow> Map.empty | Some m \<Rightarrow> m)"

text \<open>
  \<open>main\<close>: an exception of \<open>loadBooks\<close> ends the run before anything is written;
  otherwise the map is built from the empty object and written to covers.json at the
  end, and the run fails when a write throws. The console output, its two counters and
  the pause between books are left out; the directory \<open>covers\<close> is made when the
  script is loaded, before \<open>main\<close> is called.
\<close>

definition main ::
  "'n platform \<Rightarrow> 'f file_system \<Rightarrow> export option \<Rightarrow> ('n, 'f) world \<Rightarrow> error + ('n, 'f) world" where
  "main pf fsys file w =
     (case loadBooks file of
        Inl e \<Rightarrow> Inl e
      | Inr bs \<Rightarrow>
          (let existingCoversMap = existing_covers w
           in (case process_all pf fsys existingCoversMap bs (Map.empty, w) of
                 Inl e \<Rightarrow> Inl e
               | Inr (coversMap, w') \<Rightarrow>
                   (case writeFileSync fsys (disk w') ''covers.json'' (MapJson coversMap) of
                      None \<Rightarrow> Inl IOError
                    | Some d \<Rightarrow> Inr (w'\<lparr> disk := d, covers_json := Some coversMap \<rparr>)))))"

section \<open>Predicates of the statements\<close>

text \<open>An author as the fetcher stores it: \<open>null\<close> or a truthy value.\<close>

definition ok_author :: "json \<Rightarrow> bool" where
  "ok_author a = (a = JNull \<or> truthy (Some a))"

text \<open>An entry agrees with the disk: its path is the one recorded for the key when the
  file of the key exists, and \<open>null\<close> when it does not.\<close>

definition consistent_entry :: "'f file_system \<Rightarrow> 'f \<Rightarrow> string \<Rightarrow> cover_entry \<Rightarrow> bool" where
  "consistent_entry fsys d k e =
     (ok_author (author e)
      \<and> (if existsSync fsys d (cover_file k) then path e = Some (entry_path k)
         else path e = None))"

text \<open>What the statements about two runs ask of the file system: after a write the
  path exists, and the write leaves the existence of every other path as it was.\<close>

definition disk_laws :: "'f file_system \<Rightarrow> bool" where
  "disk_laws fsys =
     (\<forall>d p c d'. writeFileSync fsys d p c = Some d' \<longrightarrow>
        existsSync fsys d' p \<and> (\<forall>q. q \<noteq> p \<longrightarrow> existsSync fsys d' q = existsSync fsys d q))"


text \<open>JavaScript's \<open>a >= b\<close> on two strings: the comparison of their code units, a
  proper prefix being the smaller.\<close>

fun string_ge :: "string \<Rightarrow> string \<Rightarrow> bool" where
  "string_ge a [] = True"
| "string_ge [] (y # ys) = False"
| "string_ge (x # xs) (y # ys) =
     (if x = y then string_ge xs ys else (of_char y :: nat) < of_char x)"

text \<open>A network on which no body is longer than \<open>n\<close> bytes.\<close>

definition serves_at_most :: "'n platform \<Rightarrow> nat \<Rightarrow> bool" where
  "serves_at_most pf n =
     (\<forall>url out statusCode body out'.
        respond pf url out = (Response statusCode (Some body), out') \<longrightarrow> length body \<le> n)"

section \<open>Example data\<close>

text \<open>A small export in the bucket shape, and the dates it mentions with their time
  values (milliseconds since 1970, UTC) and years.\<close>

definition example_dates :: date_lib where
  "example_dates =
     table_dates [(''2023-05-01'', 1682899200000, 2023), (''2022-01-15'', 1642204800000, 2022)]"

definition dune :: raw_book where
  "dune = \<lparr> title = Some ''Dune'', bookId = Some ''1'', bookid = None,
            editions = Some [\<lparr> isbn = Some ''978-0-441-01359-3'', format = None,
                               type = Some ''eBook'' \<rparr>],
            finishedDate = Some ''2023-05-01'', date = None \<rparr>"

definition emma :: raw_book where
  "emma = \<lparr> title = Some ''Emma'', bookId = Some ''2'', bookid = None,
            editions = Some [\<lparr> isbn = Some ''0-19-953552-X'', format = Some ''audioBook'',
                               type = None \<rparr>],
            finishedDate = Some ''2022-01-15'', date = None \<rparr>"

definition untitled :: raw_book where
  "untitled = \<lparr> title = None, bookId = Some ''3'', bookid = None, editions = Some [],
                finishedDate = Some ''2023-05-01'', date = None \<rparr>"

definition undated :: raw_book where
  "undated = \<lparr> title = Some ''Ulysses'', bookId = Some ''4'', bookid = None, editions = None,
               finishedDate = Some ''someday'', date = None \<rparr>"

definition example_export :: export where
  "example_export =
     Buckets [\<lparr> ctype = Some ''myfinishedbooks'', books = Some [emma, untitled, dune, undated] \<rparr>,
              \<lparr> ctype = Some ''mysavedbooks'', books = Some [] \<rparr>]"

definition dune_export :: "export option" where
  "dune_export = Some (Buckets [\<lparr> ctype = Some ''myfinishedbooks'', books = Some [dune] \<rparr>])"

definition initial_state :: state where
  "initial_state = \<lparr> finishedBooks = [], savedBooks = [], activeTab = ''finished'' \<rparr>"

text \<open>Networks for the examples. The outside world counts the requests it has seen.
  \<open>serving_by len\<close> answers the request for a URL with status 200 and a body of
  \<open>len url\<close> bytes, and every body parses to the same search result: one document for
  the Open Library searches and one item for the Google Books search. \<open>serving len\<close>
  serves bodies of one length; on \<open>offline\<close> every request fails.\<close>

definition example_search :: json where
  "example_search =
     JObj [(''docs'', JArr [JObj [(''cover_i'', JNum 8231856),
                                  (''author_name'', JArr [JStr ''Frank Herbert''])]]),
           (''items'', JArr [JObj [(''volumeInfo'',
              JObj [(''imageLinks'',
                       JObj [(''thumbnail'', JStr ''http://books.example/img?id=1&edge=curl'')]),
                    (''authors'', JArr [JStr ''F. Herbert''])])]])]"

definition serving_by :: "(string \<Rightarrow> nat) \<Rightarrow> nat platform" where
  "serving_by len =
     \<lparr> respond = (\<lambda>url n. (Response 200 (Some (replicate (len url) 0)), Suc n)),
       JSON_parse = (\<lambda>body. Some example_search) \<rparr>"

definition serving :: "nat \<Rightarrow> nat platform" where
  "serving len = serving_by (\<lambda>url. len)"

text \<open>Small images from Open Library, a large one from the Google Books link.\<close>

definition small_then_large :: "string \<Rightarrow> nat" where
  "small_then_large url = (if url = ''https://books.example/img?id=1'' then 2500 else 900)"

definition offline :: "nat platform" where
  "offline = \<lparr> respond = (\<lambda>url n. (NoResponse, Suc n)), JSON_parse = (\<lambda>body. None) \<rparr>"

text \<open>A file system for the examples: the disk is the list of the paths that exist,
  and every write succeeds.\<close>

definition listing :: "string list file_system" where
  "listing =
     \<lparr> existsSync = (\<lambda>d p. p \<in> set d),
       writeFileSync = (\<lambda>d p c. Some (List.insert p d)) \<rparr>"

definition fresh_world :: "(nat, string list) world" where
  "fresh_world =
     \<lparr> disk = [''covers''], covers_json = None, net = \<lparr> outside = 0, requests = [] \<rparr> \<rparr>"



text \<open>Dune under the id \<open>__proto__\<close>.\<close>

definition proto_export :: "export option" where
  "proto_export =
     Some (Buckets [\<lparr> ctype = Some ''myfinishedbooks'',
                      books = Some [dune\<lparr> bookId := Some ''__proto__'' \<rparr>] \<rparr>])"

text \<open>Two finished books whose dates are written with and without an offset: the
  first is the later moment and the smaller string. The years are those of a machine
  in UTC.\<close>

definition offset_dates :: date_lib where
  "offset_dates =
     table_dates [(''2023-12-31T23:30:00-05:00'', 1704083400000, 2024),
                  (''2024-01-01'', 1704067200000, 2024)]"

definition offset_export :: export where
  "offset_export =
     Buckets [\<lparr> ctype = Some ''myfinishedbooks'', books = Some
                [\<lparr> title = Some ''Early'', bookId = Some ''8'', bookid = None, editions = None,
                   finishedDate = Some ''2024-01-01'', date = None \<rparr>,
                 \<lparr> title = Some ''Late'', bookId = Some ''9'', bookid = None, editions = None,
                   finishedDate = Some ''2023-12-31T23:30:00-05:00'', date = None \<rparr>] \<rparr>]"

text \<open>The export of Dune in the flat shape.\<close>

definition flat_export :: export where
  "flat_export = Flat [(''myfinishedbooks'', [dune]), (''mysavedbooks'', [])]"

text \<open>The five requests of a run that finds nothing for Dune.\<close>

definition dune_requests :: "string list" where
  "dune_requests =
     [''https://openlibrary.org/search.json?isbn=9780441013593&limit=1'',
      ''https://www.googleapis.com/books/v1/volumes?q=isbn:9780441013593'',
      ''https://openlibrary.org/search.json?title=Dune&limit=5'',
      ''https://www.googleapis.com/books/v1/volumes?q=isbn:9780441013593'',
      ''https://openlibrary.org/search.json?title=Dune&limit=1'']"

text \<open>A world left by an earlier run on another export: one cover and its entry.\<close>

definition old_world :: "(nat, string list) world" where
  "old_world =
     \<lparr> disk = [''covers.json'', ''covers/77.jpg'', ''covers''],
       covers_json = Some [''77'' \<mapsto> \<lparr> path = Some ''covers/77.jpg'', author = JStr ''A'' \<rparr>],
       net = \<lparr> outside = 0, requests = [] \<rparr> \<rparr>"

section \<open>Properties of the normalizer\<close>

subsection \<open>cleanISBN\<close>

lemma class_canonical: "map canonicalize class_0_9X = class_0_9X"
  by (simp add: canonicalize_def class_0_9X_def)

lemma char_eq_code: "(c = d) = ((of_char c :: nat) = of_char d)"
  by simp

lemma in_class_code:
  "c \<in> set class_0_9X \<longleftrightarrow> (of_char c :: nat) \<in> {48, 49, 50, 51, 52, 53, 54, 55, 56, 57, 88}"
  unfolding class_0_9X_def by (simp add: char_eq_code [of c])

lemma in_class_x_code:
  "c \<in> set ''0123456789Xx'' \<longleftrightarrow>
     (of_char c :: nat) \<in> {48, 49, 50, 51, 52, 53, 54, 55, 56, 57, 88, 120}"
  by (simp add: char_eq_code [of c])

lemma canonicalize_class:
  "canonicalize c \<in> set (map canonicalize class_0_9X) \<longleftrightarrow> c \<in> set ''0123456789Xx''"
proof (cases "97 \<le> (of_char c :: nat) \<and> (of_char c :: nat) \<le> 122")
  case True
  then have "(of_char (canonicalize c) :: nat) = of_char c - 32"
    by (auto simp add: canonicalize_def Let_def)
  with True show ?thesis
    unfolding class_canonical in_class_code in_class_x_code by simp arith
next
  case False
  then have "canonicalize c = c"
    by (auto simp add: canonicalize_def Let_def)
  with False show ?thesis
    unfolding class_canonical in_class_code in_class_x_code by auto
qed

lemma replace_not_0_9X_gi_filter:
  "replace_not_0_9X_gi s = filter (\<lambda>c. c \<in> set ''0123456789Xx'') s"
  unfolding replace_not_0_9X_gi_def matches_not_0_9X_i_def
  by (simp only: canonicalize_class not_not)

text \<open>
  C5 (as amended). \<open>cleanISBN\<close>, and the same replacement in \<open>loadBooks\<close>, keep
  exactly the characters of the input that are a decimal digit, \<open>X\<close> or \<open>x\<close>, in
  their order and in their case: nothing is uppercased, so a lowercase \<open>x\<close> stays
  lowercase.
\<close>
theorem cleanISBN_keeps_digits_and_both_x:
  "cleanISBN s = filter (\<lambda>c. c \<in> set ''0123456789Xx'') s
   \<and> set (cleanISBN s) \<subseteq> set ''0123456789Xx''"
  unfolding cleanISBN_def replace_not_0_9X_gi_filter by auto

text \<open>
  C5 as stated fails: the lowercase check character of \<open>0-8044-2957-x\<close> is kept
  as it is, so the result has a character that is neither a digit nor the uppercase
  \<open>X\<close>.
\<close>
theorem cleanISBN_lowercase_x_counterexample:
  "cleanISBN ''0-8044-2957-x'' = ''080442957x''
   \<and> \<not> set (cleanISBN ''0-8044-2957-x'') \<subseteq> set ''0123456789X''"
  unfolding cleanISBN_def replace_not_0_9X_gi_filter by simp

subsection \<open>extractAllISBNs\<close>

lemma set_keep_first [simp]: "set (keep_first xs) = set xs"
  by (induction xs) auto

lemma distinct_keep_first [simp]: "distinct (keep_first xs)"
  by (induction xs) auto

lemma filter_keep_first: "filter P (keep_first xs) = keep_first (filter P xs)"
proof (induction xs)
  case Nil
  then show ?case by simp
next
  case (Cons x xs)
  show ?case
  proof (cases "P x")
    case True
    have "filter P (filter (\<lambda>y. y \<noteq> x) (keep_first xs))
            = filter (\<lambda>y. y \<noteq> x) (filter P (keep_first xs))"
      by (simp add: conj_commute)
    with True show ?thesis
      using Cons.IH by simp
  next
    case False
    have "filter P (filter (\<lambda>y. y \<noteq> x) (keep_first xs)) = filter P (keep_first xs)"
      using False by (auto intro: filter_cong)
    with False show ?thesis
      using Cons.IH by simp
  qed
qed

lemma eBook_loop_append:
  "eBook_loop es acc = acc @ map cleaned_isbn (filter (\<lambda>e. is_eBook e \<and> has_isbn e) es)"
  by (induction es arbitrary: acc) (simp_all add: cleaned_isbn_def has_isbn_def)

lemma push_new_step:
  "c \<notin> set acc \<Longrightarrow>
   (acc @ [c]) @ keep_first (filter (\<lambda>x. x \<notin> set (acc @ [c])) xs)
     = acc @ keep_first (filter (\<lambda>x. x \<notin> set acc) (c # xs))"
proof -
  assume c: "c \<notin> set acc"
  have "filter (\<lambda>x. x \<notin> set (acc @ [c])) xs = filter (\<lambda>y. y \<noteq> c) (filter (\<lambda>x. x \<notin> set acc) xs)"
    by (auto intro: filter_cong)
  then show ?thesis
    using c by (simp add: filter_keep_first)
qed

lemma audioBook_loop_append:
  "audioBook_loop es acc =
     acc @ keep_first (filter (\<lambda>x. x \<notin> set acc)
                         (map cleaned_isbn (filter (\<lambda>e. is_audioBook e \<and> has_isbn e) es)))"
proof (induction es arbitrary: acc)
  case Nil
  then show ?case by simp
next
  case (Cons e es)
  show ?case
  proof (cases "is_audioBook e \<and> has_isbn e")
    case False
    then show ?thesis
      using Cons.IH [of acc] by (auto simp: has_isbn_def)
  next
    case True
    show ?thesis
    proof (cases "cleaned_isbn e \<in> set acc")
      case True
      with \<open>is_audioBook e \<and> has_isbn e\<close> show ?thesis
        using Cons.IH [of acc] by (simp add: has_isbn_def cleaned_isbn_def)
    next
      case False
      have "audioBook_loop (e # es) acc = audioBook_loop es (acc @ [cleaned_isbn e])"
        using False \<open>is_audioBook e \<and> has_isbn e\<close> by (simp add: has_isbn_def cleaned_isbn_def)
      also have "\<dots> = (acc @ [cleaned_isbn e]) @ keep_first (filter (\<lambda>x. x \<notin> set (acc @ [cleaned_isbn e]))
                         (map cleaned_isbn (filter (\<lambda>e. is_audioBook e \<and> has_isbn e) es)))"
        by (rule Cons.IH)
      also have "\<dots> = acc @ keep_first (filter (\<lambda>x. x \<notin> set acc)
             (cleaned_isbn e # map cleaned_isbn (filter (\<lambda>e. is_audioBook e \<and> has_isbn e) es)))"
        by (rule push_new_step [OF False])
      finally show ?thesis
        using \<open>is_audioBook e \<and> has_isbn e\<close> by simp
    qed
  qed
qed

lemma other_loop_append:
  "other_loop es acc =
     acc @ keep_first (filter (\<lambda>x. x \<notin> set acc) (map cleaned_isbn (filter has_isbn es)))"
proof (induction es arbitrary: acc)
  case Nil
  then show ?case by simp
next
  case (Cons e es)
  show ?case
  proof (cases "has_isbn e")
    case False
    then show ?thesis
      using Cons.IH [of acc] by (auto simp: has_isbn_def)
  next
    case True
    show ?thesis
    proof (cases "cleaned_isbn e \<in> set acc")
      case True
      with \<open>has_isbn e\<close> show ?thesis
        using Cons.IH [of acc] by (simp add: has_isbn_def cleaned_isbn_def)
    next
      case False
      have "other_loop (e # es) acc = other_loop es (acc @ [cleaned_isbn e])"
        using False \<open>has_isbn e\<close> by (simp add: has_isbn_def cleaned_isbn_def)
      also have "\<dots> = (acc @ [cleaned_isbn e]) @ keep_first (filter (\<lambda>x. x \<notin> set (acc @ [cleaned_isbn e]))
                         (map cleaned_isbn (filter has_isbn es)))"
        by (rule Cons.IH)
      also have "\<dots> = acc @ keep_first (filter (\<lambda>x. x \<notin> set acc)
             (cleaned_isbn e # map cleaned_isbn (filter has_isbn es)))"
        by (rule push_new_step [OF False])
      finally show ?thesis
        using \<open>has_isbn e\<close> by simp
    qed
  qed
qed

lemma extractAllISBNs_phases:
  "extractAllISBNs (Some es) =
     (let E = map cleaned_isbn (filter (\<lambda>e. is_eBook e \<and> has_isbn e) es);
          A = keep_first (filter (\<lambda>x. x \<notin> set E)
                 (map cleaned_isbn (filter (\<lambda>e. is_audioBook e \<and> has_isbn e) es)));
          R = keep_first (filter (\<lambda>x. x \<notin> set (E @ A)) (map cleaned_isbn (filter has_isbn es)))
      in E @ A @ R)"
  by (simp add: extractAllISBNs_def eBook_loop_append audioBook_loop_append other_loop_append Let_def)

lemma set_extractAllISBNs:
  "set (extractAllISBNs (Some es)) = cleaned_isbn ` {e \<in> set es. has_isbn e}"
  unfolding extractAllISBNs_phases Let_def by auto

lemma distinct_extractAllISBNs:
  "distinct (map cleaned_isbn (filter (\<lambda>e. is_eBook e \<and> has_isbn e) es))
     \<Longrightarrow> distinct (extractAllISBNs (Some es))"
  unfolding extractAllISBNs_phases Let_def by auto

lemma edition_isbns_append:
  "edition_isbns es acc = acc @ map cleaned_isbn (filter has_isbn es)"
  by (induction es arbitrary: acc) (simp_all add: cleaned_isbn_def has_isbn_def cleanISBN_def)

text \<open>
  C6 (as amended). The extracted list is the cleaned ISBNs of the eBook editions in
  input order, then the first occurrences of the cleaned ISBNs of the audioBook editions
  that are not among them, then the first occurrences of the remaining cleaned ISBNs of
  all editions, whatever the order of the editions. In particular an audioBook edition
  with ISBN \<open>a\<close> followed by an eBook edition with ISBN \<open>b\<close> gives the cleaned \<open>b\<close>
  and then the cleaned \<open>a\<close>, when both are non-empty and clean to different strings.
\<close>
theorem extractAllISBNs_priority_order:
  "extractAllISBNs (Some es) =
     (let E = map cleaned_isbn (filter (\<lambda>e. is_eBook e \<and> has_isbn e) es);
          A = keep_first (filter (\<lambda>x. x \<notin> set E)
                 (map cleaned_isbn (filter (\<lambda>e. is_audioBook e \<and> has_isbn e) es)));
          R = keep_first (filter (\<lambda>x. x \<notin> set (E @ A)) (map cleaned_isbn (filter has_isbn es)))
      in E @ A @ R)
   \<and> (a \<noteq> [] \<and> b \<noteq> [] \<and> cleanISBN a \<noteq> cleanISBN b \<longrightarrow>
        extractAllISBNs (Some [\<lparr> isbn = Some a, format = None, type = Some ''audioBook'' \<rparr>,
                               \<lparr> isbn = Some b, format = None, type = Some ''eBook'' \<rparr>])
          = [cleanISBN b, cleanISBN a])"
proof
  show "extractAllISBNs (Some es) =
     (let E = map cleaned_isbn (filter (\<lambda>e. is_eBook e \<and> has_isbn e) es);
          A = keep_first (filter (\<lambda>x. x \<notin> set E)
                 (map cleaned_isbn (filter (\<lambda>e. is_audioBook e \<and> has_isbn e) es)));
          R = keep_first (filter (\<lambda>x. x \<notin> set (E @ A)) (map cleaned_isbn (filter has_isbn es)))
      in E @ A @ R)"
    by (rule extractAllISBNs_phases)
  show "a \<noteq> [] \<and> b \<noteq> [] \<and> cleanISBN a \<noteq> cleanISBN b \<longrightarrow>
        extractAllISBNs (Some [\<lparr> isbn = Some a, format = None, type = Some ''audioBook'' \<rparr>,
                               \<lparr> isbn = Some b, format = None, type = Some ''eBook'' \<rparr>])
          = [cleanISBN b, cleanISBN a]"
    by (simp add: extractAllISBNs_def is_eBook_def is_audioBook_def truthy_str_def js_String_def)
qed

text \<open>
  C6, at the ISBNs \<open>1\<close> and \<open>2\<close>: the eBook ISBN comes first.
\<close>
theorem extractAllISBNs_priority_order_witness:
  "''1'' \<noteq> [] \<and> ''2'' \<noteq> [] \<and> cleanISBN ''1'' \<noteq> cleanISBN ''2''
   \<and> extractAllISBNs (Some [\<lparr> isbn = Some ''1'', format = None, type = Some ''audioBook'' \<rparr>,
                            \<lparr> isbn = Some ''2'', format = None, type = Some ''eBook'' \<rparr>])
       = [''2'', ''1'']"
proof -
  have c: "cleanISBN ''1'' = ''1''" "cleanISBN ''2'' = ''2''"
    by (simp_all add: cleanISBN_def replace_not_0_9X_gi_filter)
  then have h: "''1'' \<noteq> [] \<and> ''2'' \<noteq> [] \<and> cleanISBN ''1'' \<noteq> cleanISBN ''2''"
    by simp
  from extractAllISBNs_priority_order [of "[]" "''1''" "''2''"] h c show ?thesis
    by simp
qed

text \<open>
  C6 as stated fails at its own example: the letters \<open>A\<close> and \<open>B\<close> are not ISBN
  characters, both clean to the empty string, and the extracted list is that one empty
  string.
\<close>
theorem extractAllISBNs_letters_counterexample:
  "extractAllISBNs (Some [\<lparr> isbn = Some ''A'', format = None, type = Some ''audioBook'' \<rparr>,
                          \<lparr> isbn = Some ''B'', format = None, type = Some ''eBook'' \<rparr>])
     = [''''] 
   \<and> extractAllISBNs (Some [\<lparr> isbn = Some ''A'', format = None, type = Some ''audioBook'' \<rparr>,
                            \<lparr> isbn = Some ''B'', format = None, type = Some ''eBook'' \<rparr>])
     \<noteq> [''B'', ''A'']"
  by (simp add: extractAllISBNs_def is_eBook_def is_audioBook_def truthy_str_def js_String_def
        cleanISBN_def replace_not_0_9X_gi_filter)

text \<open>
  C3 (as amended). In the normalizer an ISBN of the audioBook pass or of the last pass
  is added only when its cleaned form is not in the list yet: the extracted list has no
  duplicates whenever the cleaned ISBNs of the eBook editions are pairwise different, and
  it holds the cleaned ISBN of every edition that has one. The list that \<open>loadBooks\<close>
  builds is not deduplicated: it has the cleaned ISBN of every edition that has one, in
  input order.
\<close>
theorem isbn_lists_dedup_by_phase:
  "(distinct (map cleaned_isbn (filter (\<lambda>e. is_eBook e \<and> has_isbn e) es))
      \<longrightarrow> distinct (extractAllISBNs (Some es)))
   \<and> set (extractAllISBNs (Some es)) = cleaned_isbn ` {e \<in> set es. has_isbn e}
   \<and> edition_isbns es [] = map cleaned_isbn (filter has_isbn es)"
  using distinct_extractAllISBNs [of es] set_extractAllISBNs [of es] edition_isbns_append [of es "[]"]
  by simp

subsection \<open>processBooks\<close>

text \<open>
  C3, on three editions of which two clean to the same ISBN \<open>11\<close>: it is listed
  once, after the eBook ISBN.
\<close>
theorem isbn_lists_dedup_by_phase_witness:
  "distinct (map cleaned_isbn (filter (\<lambda>e. is_eBook e \<and> has_isbn e)
       [\<lparr> isbn = Some ''1-1'', format = None, type = Some ''audioBook'' \<rparr>,
        \<lparr> isbn = Some ''2'', format = Some ''eBook'', type = None \<rparr>,
        \<lparr> isbn = Some ''11'', format = None, type = None \<rparr>]))
   \<and> distinct (extractAllISBNs (Some
       [\<lparr> isbn = Some ''1-1'', format = None, type = Some ''audioBook'' \<rparr>,
        \<lparr> isbn = Some ''2'', format = Some ''eBook'', type = None \<rparr>,
        \<lparr> isbn = Some ''11'', format = None, type = None \<rparr>]))
   \<and> extractAllISBNs (Some
       [\<lparr> isbn = Some ''1-1'', format = None, type = Some ''audioBook'' \<rparr>,
        \<lparr> isbn = Some ''2'', format = Some ''eBook'', type = None \<rparr>,
        \<lparr> isbn = Some ''11'', format = None, type = None \<rparr>]) = [''2'', ''11'']"
proof -
  let ?es = "[\<lparr> isbn = Some ''1-1'', format = None, type = Some ''audioBook'' \<rparr>,
        \<lparr> isbn = Some ''2'', format = Some ''eBook'', type = None \<rparr>,
        \<lparr> isbn = Some ''11'', format = None, type = None \<rparr>]"
  have h: "distinct (map cleaned_isbn (filter (\<lambda>e. is_eBook e \<and> has_isbn e) ?es))"
    by (simp add: is_eBook_def)
  have v: "extractAllISBNs (Some ?es) = [''2'', ''11'']"
    by (simp add: extractAllISBNs_def is_eBook_def is_audioBook_def truthy_str_def js_String_def
          cleanISBN_def replace_not_0_9X_gi_filter)
  from isbn_lists_dedup_by_phase [of ?es] h v show ?thesis
    by simp
qed

text \<open>
  C3 as stated fails: two eBook editions with the same ISBN give it twice in the
  normalizer's list, and two editions with the same ISBN give it twice in the list of
  the book that \<open>loadBooks\<close> returns.
\<close>
theorem isbn_lists_duplicates_counterexample:
  "extractAllISBNs (Some [\<lparr> isbn = Some ''1'', format = None, type = Some ''eBook'' \<rparr>,
                          \<lparr> isbn = Some ''1'', format = None, type = Some ''eBook'' \<rparr>])
     = [''1'', ''1'']
   \<and> loadBooks (Some (Buckets [\<lparr> ctype = Some ''mysavedbooks'', books = Some
         [\<lparr> title = Some ''T'', bookId = None, bookid = Some ''7'',
            editions = Some [\<lparr> isbn = Some ''1'', format = None, type = Some ''audioBook'' \<rparr>,
                             \<lparr> isbn = Some ''1'', format = None, type = Some ''other'' \<rparr>],
            finishedDate = None, date = Some ''2023-05-01'' \<rparr>] \<rparr>]))
     = Inr [\<lparr> id' = Some ''7'', btitle = ''T'', isbns = [''1'', ''1''] \<rparr>]"
  by (simp add: extractAllISBNs_def is_eBook_def is_audioBook_def truthy_str_def js_String_def
        cleanISBN_def replace_not_0_9X_gi_filter loadBooks_def books_of_category_def
        book_of_raw_def js_or_def Let_def)

lemma has_year_and_title_iff:
  "has_year_and_title b \<longleftrightarrow>
     (\<exists>y. nb_year b = Some y \<and> y \<noteq> 0) \<and> truthy_str (nb_title b)"
  by (auto simp: has_year_and_title_def split: option.splits)

lemma extractYear_Some:
  "extractYear lib d = Some y \<Longrightarrow>
     \<exists>s t. d = Some s \<and> getTime lib s = Some t \<and> y = getFullYear lib t"
  by (auto simp: extractYear_def truthy_str_def js_String_def split: option.splits if_splits)

lemma sorted_sort_by_date_desc:
  "sorted_wrt (\<lambda>a b. time_of lib b \<le> time_of lib a) (sort_by_date_desc lib bs)"
proof -
  have "sorted (map (\<lambda>b. - time_of lib b) (sort_key (\<lambda>b. - time_of lib b) bs))"
    by (rule sorted_sort_key)
  then show ?thesis
    by (simp add: sort_by_date_desc_def sorted_map)
qed

lemma set_sort_by_date_desc: "set (sort_by_date_desc lib bs) = set bs"
  by (simp add: sort_by_date_desc_def)

lemma processBooks_Inr:
  assumes "processBooks lib data st = Inr st'"
  obtains finishedRaw savedRaw where
    "findCategory data ''myfinishedbooks'' = Some finishedRaw"
    "findCategory data ''mysavedbooks'' = Some savedRaw"
    "finishedBooks st' =
       sort_by_date_desc lib (filter has_year_and_title (map (finished_record lib) finishedRaw))"
    "savedBooks st' =
       sort_by_date_desc lib (filter has_year_and_title (map (saved_record lib) savedRaw))"
  using assms by (auto simp: processBooks_def split: option.splits)

text \<open>
  C7 (as amended). When \<open>processBooks\<close> returns, every record of the finished
  and of the saved list has a truthy title and a year that is the year of the time value
  parsed from its date field; a raw entry without a title or without a parseable date has no
  record in the lists; and each list is in descending order of the time values that
  \<open>new Date\<close> makes of the dates, not of the date strings: of two records, the
  earlier in the list has the later or equal time value.
\<close>
theorem processBooks_lists_titled_dated_sorted:
  assumes "processBooks lib data st = Inr st'"
  shows "(\<forall>b \<in> set (finishedBooks st') \<union> set (savedBooks st').
            truthy_str (nb_title b)
            \<and> (\<exists>s t. nb_date b = Some s \<and> getTime lib s = Some t
                     \<and> nb_year b = Some (getFullYear lib t) \<and> time_of lib b = t))
       \<and> (\<forall>r. \<not> truthy_str (title r) \<or> extractYear lib (finishedDate r) = None
              \<longrightarrow> finished_record lib r \<notin> set (finishedBooks st'))
       \<and> (\<forall>r. \<not> truthy_str (title r) \<or> extractYear lib (date r) = None
              \<longrightarrow> saved_record lib r \<notin> set (savedBooks st'))
       \<and> sorted_wrt (\<lambda>a b. time_of lib b \<le> time_of lib a) (finishedBooks st')
       \<and> sorted_wrt (\<lambda>a b. time_of lib b \<le> time_of lib a) (savedBooks st')"
proof -
  from assms obtain finishedRaw savedRaw where
    f: "finishedBooks st' =
       sort_by_date_desc lib (filter has_year_and_title (map (finished_record lib) finishedRaw))"
    and s: "savedBooks st' =
       sort_by_date_desc lib (filter has_year_and_title (map (saved_record lib) savedRaw))"
    by (rule processBooks_Inr)
  have fin: "b \<in> set (finishedBooks st') \<Longrightarrow>
      has_year_and_title b \<and> (\<exists>r. b = finished_record lib r)" for b
    unfolding f set_sort_by_date_desc by auto
  have sav: "b \<in> set (savedBooks st') \<Longrightarrow>
      has_year_and_title b \<and> (\<exists>r. b = saved_record lib r)" for b
    unfolding s set_sort_by_date_desc by auto
  have dated: "truthy_str (nb_title b)
            \<and> (\<exists>s t. nb_date b = Some s \<and> getTime lib s = Some t
                     \<and> nb_year b = Some (getFullYear lib t) \<and> time_of lib b = t)"
    if b: "has_year_and_title b"
      and r: "(\<exists>r. b = finished_record lib r) \<or> (\<exists>r. b = saved_record lib r)" for b
  proof -
    from b obtain y where y: "nb_year b = Some y" and t: "truthy_str (nb_title b)"
      by (auto simp: has_year_and_title_iff)
    from r have "nb_year b = extractYear lib (nb_date b)"
      by (auto simp: finished_record_def saved_record_def)
    with y have "extractYear lib (nb_date b) = Some y"
      by simp
    then obtain s u where "nb_date b = Some s" "getTime lib s = Some u" "y = getFullYear lib u"
      by (blast dest: extractYear_Some)
    with y t show ?thesis
      by (simp add: time_of_def)
  qed
  have 1: "\<forall>b \<in> set (finishedBooks st') \<union> set (savedBooks st').
            truthy_str (nb_title b)
            \<and> (\<exists>s t. nb_date b = Some s \<and> getTime lib s = Some t
                     \<and> nb_year b = Some (getFullYear lib t) \<and> time_of lib b = t)"
    using fin sav dated by blast
  have 2: "\<forall>r. \<not> truthy_str (title r) \<or> extractYear lib (finishedDate r) = None
              \<longrightarrow> finished_record lib r \<notin> set (finishedBooks st')"
  proof (intro allI impI notI)
    fix r
    assume a: "\<not> truthy_str (title r) \<or> extractYear lib (finishedDate r) = None"
      and "finished_record lib r \<in> set (finishedBooks st')"
    then have "has_year_and_title (finished_record lib r)"
      using fin by blast
    with a show False
      by (auto simp: has_year_and_title_iff finished_record_def)
  qed
  have 3: "\<forall>r. \<not> truthy_str (title r) \<or> extractYear lib (date r) = None
              \<longrightarrow> saved_record lib r \<notin> set (savedBooks st')"
  proof (intro allI impI notI)
    fix r
    assume a: "\<not> truthy_str (title r) \<or> extractYear lib (date r) = None"
      and "saved_record lib r \<in> set (savedBooks st')"
    then have "has_year_and_title (saved_record lib r)"
      using sav by blast
    with a show False
      by (auto simp: has_year_and_title_iff saved_record_def)
  qed
  have 4: "sorted_wrt (\<lambda>a b. time_of lib b \<le> time_of lib a) (finishedBooks st')"
    unfolding f by (rule sorted_sort_by_date_desc)
  have 5: "sorted_wrt (\<lambda>a b. time_of lib b \<le> time_of lib a) (savedBooks st')"
    unfolding s by (rule sorted_sort_by_date_desc)
  from 1 2 3 4 5 show ?thesis
    by blast
qed

text \<open>
  C7 (as amended), on the example export: Dune (2023) comes before Emma (2022), and the entry
  without a title and the one with an unparseable date are left out.
\<close>
theorem processBooks_lists_titled_dated_sorted_witness:
  "processBooks example_dates example_export initial_state =
     Inr \<lparr> finishedBooks =
             [\<lparr> nb_title = Some ''Dune'', nb_bookId = Some ''1'', nb_isbns = [''9780441013593''],
                nb_date = Some ''2023-05-01'', nb_year = Some 2023 \<rparr>,
              \<lparr> nb_title = Some ''Emma'', nb_bookId = Some ''2'', nb_isbns = [''019953552X''],
                nb_date = Some ''2022-01-15'', nb_year = Some 2022 \<rparr>],
           savedBooks = [], activeTab = ''finished'' \<rparr>
   \<and> sorted_wrt (\<lambda>a b. time_of example_dates b \<le> time_of example_dates a)
        [\<lparr> nb_title = Some ''Dune'', nb_bookId = Some ''1'', nb_isbns = [''9780441013593''],
                nb_date = Some ''2023-05-01'', nb_year = Some 2023 \<rparr>,
              \<lparr> nb_title = Some ''Emma'', nb_bookId = Some ''2'', nb_isbns = [''019953552X''],
                nb_date = Some ''2022-01-15'', nb_year = Some 2022 \<rparr>]
   \<and> finished_record example_dates untitled
        \<notin> set [\<lparr> nb_title = Some ''Dune'', nb_bookId = Some ''1'', nb_isbns = [''9780441013593''],
                nb_date = Some ''2023-05-01'', nb_year = Some 2023 \<rparr>,
              \<lparr> nb_title = Some ''Emma'', nb_bookId = Some ''2'', nb_isbns = [''019953552X''],
                nb_date = Some ''2022-01-15'', nb_year = Some 2022 \<rparr>]"
proof -
  let ?out = "\<lparr> finishedBooks =
             [\<lparr> nb_title = Some ''Dune'', nb_bookId = Some ''1'', nb_isbns = [''9780441013593''],
                nb_date = Some ''2023-05-01'', nb_year = Some 2023 \<rparr>,
              \<lparr> nb_title = Some ''Emma'', nb_bookId = Some ''2'', nb_isbns = [''019953552X''],
                nb_date = Some ''2022-01-15'', nb_year = Some 2022 \<rparr>],
           savedBooks = [], activeTab = ''finished'' \<rparr>"
  have h: "processBooks example_dates example_export initial_state = Inr ?out"
    by code_simp
  have u: "\<not> truthy_str (title untitled)"
    by (simp add: untitled_def truthy_str_def)
  from processBooks_lists_titled_dated_sorted [OF h] h u show ?thesis
    by simp
qed

text \<open>
  C7 as stated fails: a date written with an offset,
  \<open>2023-12-31T23:30:00-05:00\<close>, is a later moment than \<open>2024-01-01\<close>
  and comes first in the list, although as a string it is the smaller of the two.
\<close>
theorem processBooks_raw_dates_counterexample:
  "processBooks offset_dates offset_export initial_state =
     Inr \<lparr> finishedBooks =
             [\<lparr> nb_title = Some ''Late'', nb_bookId = Some ''9'', nb_isbns = [],
                nb_date = Some ''2023-12-31T23:30:00-05:00'', nb_year = Some 2024 \<rparr>,
              \<lparr> nb_title = Some ''Early'', nb_bookId = Some ''8'', nb_isbns = [],
                nb_date = Some ''2024-01-01'', nb_year = Some 2024 \<rparr>],
           savedBooks = [], activeTab = ''finished'' \<rparr>
   \<and> \<not> string_ge ''2023-12-31T23:30:00-05:00'' ''2024-01-01''"
  by code_simp

text \<open>
  C4 fails for the finished bucket: an entry that carries its identifier as
  \<open>bookid\<close> only gets a record without an identifier from \<open>processBooks\<close>, while
  \<open>loadBooks\<close> gives the book of the same entry the id \<open>1\<close>.
\<close>
theorem processBooks_finished_ignores_bookid:
  "processBooks example_dates
     (Buckets [\<lparr> ctype = Some ''myfinishedbooks'', books = Some
         [\<lparr> title = Some ''Dune'', bookId = None, bookid = Some ''1'',
            editions = Some [\<lparr> isbn = Some ''978-0-441-01359-3'', format = None,
                               type = Some ''eBook'' \<rparr>],
            finishedDate = Some ''2023-05-01'', date = None \<rparr>] \<rparr>])
     initial_state
   = Inr \<lparr> finishedBooks =
             [\<lparr> nb_title = Some ''Dune'', nb_bookId = None, nb_isbns = [''9780441013593''],
                nb_date = Some ''2023-05-01'', nb_year = Some 2023 \<rparr>],
           savedBooks = [], activeTab = ''finished'' \<rparr>
   \<and> loadBooks (Some (Buckets [\<lparr> ctype = Some ''myfinishedbooks'', books = Some
         [\<lparr> title = Some ''Dune'', bookId = None, bookid = Some ''1'',
            editions = Some [\<lparr> isbn = Some ''978-0-441-01359-3'', format = None,
                               type = Some ''eBook'' \<rparr>],
            finishedDate = Some ''2023-05-01'', date = None \<rparr>] \<rparr>]))
   = Inr [\<lparr> id' = Some ''1'', btitle = ''Dune'', isbns = [''9780441013593''] \<rparr>]"
  by code_simp

section \<open>Properties of the cover fetcher\<close>

subsection \<open>The attempts\<close>

lemma ok_author_or_null [simp]: "ok_author (or_null v)"
  by (cases v) (auto simp: ok_author_def or_null_def)

lemma ok_author_JNull [simp]: "ok_author JNull"
  by (simp add: ok_author_def)

lemma author_name_0_ok: "author_name_0 doc = Inr a \<Longrightarrow> ok_author a"
  by (auto simp: author_name_0_def bindE_def split: sum.splits)

lemma fetchUrl_requests:
  "fetchUrl pf url s = (r, s') \<Longrightarrow> requests s' = requests s @ [url]"
  by (auto simp: fetchUrl_def split: prod.splits)

lemma fetchJson_requests:
  "fetchJson pf url s = (r, s') \<Longrightarrow> requests s' = requests s @ [url]"
  by (auto simp: fetchJson_def split: prod.splits sum.splits option.splits dest: fetchUrl_requests)

lemma tryDirect_Some:
  "tryDirect pf i s = (Some r, s') \<Longrightarrow> 1000 < length (buffer r) \<and> ok_author (found_author r)"
  by (auto simp: tryDirect_def split: prod.splits sum.splits if_splits)

lemma tryOpenLibrary_Some:
  "tryOpenLibrary pf i s = (Some r, s') \<Longrightarrow> 1000 < length (buffer r) \<and> ok_author (found_author r)"
  unfolding tryOpenLibrary_def
  by (auto simp: bindE_def split: prod.splits sum.splits if_splits
        dest: tryDirect_Some author_name_0_ok)

lemma tryGoogleBooks_Some:
  "tryGoogleBooks pf i s = (Some r, s') \<Longrightarrow> 2000 < length (buffer r) \<and> ok_author (found_author r)"
  unfolding tryGoogleBooks_def
  by (auto split: prod.splits sum.splits if_splits)

lemma tryOpenLibraryTitleSearch_Some:
  "tryOpenLibraryTitleSearch pf t s = (Some r, s')
     \<Longrightarrow> 1000 < length (buffer r) \<and> ok_author (found_author r)"
  unfolding tryOpenLibraryTitleSearch_def
  by (auto split: prod.splits sum.splits if_splits dest: author_name_0_ok)

lemma first_found_Some:
  assumes "\<And>i s r s'. attempt i s = (Some r, s') \<Longrightarrow> P r"
  shows "first_found attempt is s = (Some r, s') \<Longrightarrow> P r"
  using assms by (induction "is" arbitrary: s) (auto split: prod.splits option.splits)

lemma find_cover_Some:
  assumes "find_cover pf b s = (Some r, s')"
  shows "1000 < length (buffer r) \<and> ok_author (found_author r)"
proof -
  have ol: "first_found (tryOpenLibrary pf) is s0 = (Some r, s1)
      \<Longrightarrow> 1000 < length (buffer r) \<and> ok_author (found_author r)" for "is" s0 s1
    by (rule first_found_Some [where attempt = "tryOpenLibrary pf"]) (rule tryOpenLibrary_Some)
  have gb: "first_found (tryGoogleBooks pf) is s0 = (Some r, s1)
      \<Longrightarrow> 2000 < length (buffer r) \<and> ok_author (found_author r)" for "is" s0 s1
    by (rule first_found_Some [where attempt = "tryGoogleBooks pf"]) (rule tryGoogleBooks_Some)
  from assms show ?thesis
    unfolding find_cover_def
    by (auto split: prod.splits option.splits dest: ol gb tryOpenLibraryTitleSearch_Some)
qed

lemma author_by_isbn_Some: "author_by_isbn pf is s = (Some a, s') \<Longrightarrow> truthy (Some a)"
  by (induction "is" arbitrary: s) (auto split: prod.splits sum.splits if_splits)

lemma author_by_title_ok: "author_by_title pf t s = (a, s') \<Longrightarrow> ok_author a"
  unfolding author_by_title_def
  by (auto simp: bindE_def split: prod.splits sum.splits option.splits if_splits
        dest: author_name_0_ok)

lemma tryGetAuthorOnly_ok: "tryGetAuthorOnly pf is t s = (a, s') \<Longrightarrow> ok_author a"
  unfolding tryGetAuthorOnly_def
  by (auto simp: ok_author_def split: prod.splits option.splits
        dest: author_by_isbn_Some author_by_title_ok)

subsection \<open>The file of a book\<close>

lemma split_slash_plain: "CHR ''/'' \<notin> set k \<Longrightarrow> split_slash k = [k]"
  by (induction k) auto

lemma split_slash_append:
  "CHR ''/'' \<notin> set a \<Longrightarrow> split_slash (a @ CHR ''/'' # b) = a # split_slash b"
  by (induction a) auto

lemma cover_file_plain:
  assumes "CHR ''/'' \<notin> set k"
  shows "cover_file k = ''covers/'' @ k @ ''.jpg''"
proof -
  have k: "CHR ''/'' \<notin> set (k @ ''.jpg'')"
    using assms by simp
  have s: "split_slash (''covers'' @ CHR ''/'' # (k @ ''.jpg'')) = ''covers'' # split_slash (k @ ''.jpg'')"
    by (rule split_slash_append) simp
  have seg: "k @ ''.jpg'' \<noteq> [] \<and> k @ ''.jpg'' \<noteq> ''.'' \<and> k @ ''.jpg'' \<noteq> ''..''"
    by (cases k rule: rev_cases) (auto simp: append_eq_Cons_conv)
  have "normalizeString (''covers/'' @ k @ ''.jpg'') True = ''covers/'' @ k @ ''.jpg''"
    using s seg by (simp add: normalizeString_def split_slash_plain [OF k] normalize_step_def)
  then show ?thesis
    by (simp add: cover_file_def path_join_def normalize_def)
qed

subsection \<open>The loop of main\<close>



lemma existing_author_ok [simp]: "ok_author (existing_author x)"
  by (cases x) (simp_all add: existing_author_def)


lemma dom_set_entry: "dom (set_entry cm k e) = dom cm \<union> ({k} - {''__proto__''})"
  by (auto simp: set_entry_def)

text \<open>What one iteration does to the map, the disk and covers.json.\<close>

lemma process_book_cases:
  assumes "process_book pf fsys ex b (cm, w) = Inr (cm', w')"
  shows "(\<exists>e. cm' = set_entry cm (key_of b) e
            \<and> (disk_laws fsys \<longrightarrow> consistent_entry fsys (disk w') (key_of b) e))
       \<and> (disk w' = disk w
           \<or> (\<exists>c. writeFileSync fsys (disk w) (coverPath b) c = Some (disk w')))
       \<and> covers_json w' = covers_json w"
proof (cases "existsSync fsys (disk w) (coverPath b)")
  case True
  with assms show ?thesis
    by (auto simp: process_book_def consistent_entry_def coverPath_def Let_def)
next
  case nofile: False
  show ?thesis
  proof (cases "no_cover_has_author (ex (key_of b))")
    case True
    then obtain e where e: "ex (key_of b) = Some e" "path e = None" "truthy (Some (author e))"
      by (auto simp: no_cover_has_author_def split: option.splits)
    with nofile True assms show ?thesis
      by (auto simp: process_book_def consistent_entry_def coverPath_def Let_def ok_author_def)
  next
    case False
    show ?thesis
    proof (cases "find_cover pf b (net w)")
      case (Pair r s)
      show ?thesis
      proof (cases r)
        case None
        obtain a s' where a: "tryGetAuthorOnly pf (isbns b) (btitle b) s = (a, s')"
          by (cases "tryGetAuthorOnly pf (isbns b) (btitle b) s")
        then have "ok_author a"
          by (rule tryGetAuthorOnly_ok)
        with nofile False Pair None a assms show ?thesis
          by (auto simp: process_book_def consistent_entry_def coverPath_def Let_def)
      next
        case (Some result)
        with Pair have ok: "ok_author (found_author result)"
          using find_cover_Some by blast
        from nofile False Pair Some assms obtain d where
          d: "writeFileSync fsys (disk w) (coverPath b) (Image (buffer result)) = Some d"
          and cm': "cm' = set_entry cm (key_of b)
                     \<lparr> path = Some (entry_path (key_of b)), author = found_author result \<rparr>"
          and w': "w' = w\<lparr> disk := d, net := s \<rparr>"
          by (auto simp: process_book_def Let_def split: option.splits)
        have "disk_laws fsys \<longrightarrow> existsSync fsys d (cover_file (key_of b))"
          using d by (auto simp: disk_laws_def coverPath_def)
        with ok cm' w' d show ?thesis
          by (auto simp: consistent_entry_def)
      qed
    qed
  qed
qed

lemma process_all_dom:
  assumes "process_all pf fsys ex bs (cm, w) = Inr (cm', w')"
  shows "dom cm' = dom cm \<union> (key_of ` set bs - {''__proto__''})
       \<and> covers_json w' = covers_json w"
  using assms
proof (induction bs arbitrary: cm w)
  case Nil
  then show ?case by simp
next
  case (Cons b bs)
  from Cons.prems obtain cm1 w1 where step: "process_book pf fsys ex b (cm, w) = Inr (cm1, w1)"
    and rest: "process_all pf fsys ex bs (cm1, w1) = Inr (cm', w')"
    by (auto split: sum.splits)
  from process_book_cases [OF step] obtain e where
    "cm1 = set_entry cm (key_of b) e" "covers_json w1 = covers_json w"
    by blast
  with Cons.IH [OF rest] show ?case
    by (auto simp: dom_set_entry)
qed





subsection \<open>main\<close>

lemma main_Inr:
  assumes "main pf fsys file w = Inr w'"
  obtains bs cm w1 d where "loadBooks file = Inr bs"
    and "process_all pf fsys (existing_covers w) bs (Map.empty, w) = Inr (cm, w1)"
    and "writeFileSync fsys (disk w1) ''covers.json'' (MapJson cm) = Some d"
    and "w' = w1\<lparr> disk := d, covers_json := Some cm \<rparr>"
  using assms by (auto simp: main_def Let_def split: sum.splits prod.splits option.splits)

lemma main_map:
  assumes "main pf fsys file w = Inr w'"
  obtains bs m where "loadBooks file = Inr bs" and "covers_json w' = Some m"
    and "dom m = key_of ` set bs - {''__proto__''}"
    and "bs = [] \<longrightarrow> net w' = net w"
proof -
  from assms obtain bs cm w1 d where l: "loadBooks file = Inr bs"
    and p: "process_all pf fsys (existing_covers w) bs (Map.empty, w) = Inr (cm, w1)"
    and w': "w' = w1\<lparr> disk := d, covers_json := Some cm \<rparr>"
    by (rule main_Inr)
  from process_all_dom [OF p] have "dom cm = key_of ` set bs - {''__proto__''}"
    by simp
  moreover from p have "bs = [] \<longrightarrow> net w1 = net w"
    by auto
  ultimately show thesis
    using l w' that [of bs cm] by simp
qed

text \<open>
  After a run that completes, the keys of the written map are the ids of the books that
  \<open>loadBooks\<close> returned, other than \<open>__proto__\<close>; an entry of the earlier
  covers.json under a key that is the id of no loaded book is not in the written map.
\<close>

lemma main_map_keys:
  assumes "main pf fsys file w = Inr w'"
  shows "\<exists>bs m. loadBooks file = Inr bs \<and> covers_json w' = Some m
           \<and> dom m = key_of ` set bs - {''__proto__''}
           \<and> (\<forall>k e. existing_covers w k = Some e \<and> k \<notin> key_of ` set bs \<longrightarrow> m k = None)"
proof -
  from assms obtain bs m where "loadBooks file = Inr bs" "covers_json w' = Some m"
    "dom m = key_of ` set bs - {''__proto__''}"
    by (rule main_map)
  then show ?thesis
    by (intro exI [of _ bs] exI [of _ m]) auto
qed







subsection \<open>Runs on the example data\<close>

lemma load_dune:
  "loadBooks dune_export = Inr [\<lparr> id' = Some ''1'', btitle = ''Dune'', isbns = [''9780441013593''] \<rparr>]"
  by code_simp

lemma load_proto:
  "loadBooks proto_export
     = Inr [\<lparr> id' = Some ''__proto__'', btitle = ''Dune'', isbns = [''9780441013593''] \<rparr>]"
  by code_simp


lemma template_cover_i: "template (Some (JNum 8231856)) = ''8231856''"
  by (simp add: template_def dec_int_def)

lemma example_cover_i: "docs_0_cover_i example_search = Inr (Some (JNum 8231856))"
  by code_simp

lemma example_author: "bindE (docs_0 example_search) author_name_0 = Inr (JStr ''Frank Herbert'')"
  by code_simp

lemma example_item:
  "items_0 example_search = Inr (Some (JObj [(''volumeInfo'',
              JObj [(''imageLinks'',
                       JObj [(''thumbnail'', JStr ''http://books.example/img?id=1&edge=curl'')]),
                    (''authors'', JArr [JStr ''F. Herbert''])])]))"
  by code_simp

lemma example_imageLinks:
  "volume_imageLinks (Some (JObj [(''volumeInfo'',
              JObj [(''imageLinks'',
                       JObj [(''thumbnail'', JStr ''http://books.example/img?id=1&edge=curl'')]),
                    (''authors'', JArr [JStr ''F. Herbert''])])]))
     = Inr (Some (JObj [(''thumbnail'', JStr ''http://books.example/img?id=1&edge=curl'')]))"
  by code_simp

lemma example_imageUrl:
  "imageUrl (Some (JObj [(''thumbnail'', JStr ''http://books.example/img?id=1&edge=curl'')]))
     = Inr ''https://books.example/img?id=1''"
  by code_simp

lemma example_volume_author:
  "volume_authors_0 (Some (JObj [(''volumeInfo'',
              JObj [(''imageLinks'',
                       JObj [(''thumbnail'', JStr ''http://books.example/img?id=1&edge=curl'')]),
                    (''authors'', JArr [JStr ''F. Herbert''])])]))
     = Inr (Some (JStr ''F. Herbert''))"
  by code_simp

lemma serving_fetchUrl:
  "fetchUrl (serving_by len) url s =
     (Inr (replicate (len url) 0), \<lparr> outside = Suc (outside s), requests = requests s @ [url] \<rparr>)"
  by (simp add: fetchUrl_def serving_by_def)

lemma serving_fetchJson:
  "fetchJson (serving_by len) url s =
     (Inr example_search, \<lparr> outside = Suc (outside s), requests = requests s @ [url] \<rparr>)"
  by (simp add: fetchJson_def serving_fetchUrl) (simp add: serving_by_def)

lemma serving_tryOpenLibrary:
  "1000 < len \<Longrightarrow>
   tryOpenLibrary (serving len) i s =
     (Some \<lparr> buffer = replicate len 0, found_author = JStr ''Frank Herbert'' \<rparr>,
      \<lparr> outside = Suc (Suc (outside s)),
        requests = requests s @ [''https://openlibrary.org/search.json?isbn='' @ i @ ''&limit=1'',
                                 ''https://covers.openlibrary.org/b/id/8231856-L.jpg''] \<rparr>)"
  by (simp add: tryOpenLibrary_def serving_def serving_fetchJson serving_fetchUrl example_cover_i
        example_author template_cover_i)

lemma dune_find_cover:
  "find_cover (serving 1500) \<lparr> id' = Some ''1'', btitle = ''Dune'', isbns = [''9780441013593''] \<rparr> s =
     (Some \<lparr> buffer = replicate 1500 0, found_author = JStr ''Frank Herbert'' \<rparr>,
      \<lparr> outside = Suc (Suc (outside s)),
        requests = requests s @ [''https://openlibrary.org/search.json?isbn=9780441013593&limit=1'',
                                 ''https://covers.openlibrary.org/b/id/8231856-L.jpg''] \<rparr>)"
  by (simp add: find_cover_def serving_tryOpenLibrary)

lemma cover_file_1: "cover_file ''1'' = ''covers/1.jpg''"
  by (simp add: cover_file_plain)



lemma main_serving_dune_old_world:
  "main (serving 1500) listing dune_export old_world =
     Inr \<lparr> disk = [''covers/1.jpg'', ''covers.json'', ''covers/77.jpg'', ''covers''],
           covers_json = Some [''1'' \<mapsto> \<lparr> path = Some ''covers/1.jpg'',
                                            author = JStr ''Frank Herbert'' \<rparr>],
           net = \<lparr> outside = 2,
                   requests = [''https://openlibrary.org/search.json?isbn=9780441013593&limit=1'',
                               ''https://covers.openlibrary.org/b/id/8231856-L.jpg''] \<rparr> \<rparr>"
  by (simp add: main_def load_dune existing_covers_def old_world_def process_book_def
        key_of_def js_String_def coverPath_def cover_file_1 entry_path_def set_entry_def
        no_cover_has_author_def dune_find_cover listing_def)

lemma offline_fetchUrl:
  "fetchUrl offline url s =
     (Inl NetworkError, \<lparr> outside = Suc (outside s), requests = requests s @ [url] \<rparr>)"
  by (simp add: fetchUrl_def offline_def)

lemma offline_fetchJson:
  "fetchJson offline url s =
     (Inl NetworkError, \<lparr> outside = Suc (outside s), requests = requests s @ [url] \<rparr>)"
  by (simp add: fetchJson_def offline_fetchUrl)

lemma dune_searchTitle: "encodeURIComponent (searchTitle ''Dune'') = ''Dune''"
  by code_simp

lemma offline_dune_find_cover:
  "find_cover offline \<lparr> id' = k, btitle = ''Dune'', isbns = [''9780441013593''] \<rparr> s =
     (None, \<lparr> outside = Suc (Suc (Suc (outside s))),
              requests = requests s @ take 3 dune_requests \<rparr>)"
  by (simp add: find_cover_def tryOpenLibrary_def tryGoogleBooks_def tryOpenLibraryTitleSearch_def
        offline_fetchJson dune_searchTitle dune_requests_def)

lemma offline_dune_author:
  "tryGetAuthorOnly offline [''9780441013593''] ''Dune'' s =
     (JNull, \<lparr> outside = Suc (Suc (outside s)),
               requests = requests s @ drop 3 dune_requests \<rparr>)"
  by (simp add: tryGetAuthorOnly_def author_by_title_def offline_fetchJson dune_searchTitle
        dune_requests_def)

lemma offline_dune_process:
  "\<not> existsSync fsys (disk w) (cover_file (js_String k)) \<Longrightarrow> \<not> no_cover_has_author (ex (js_String k)) \<Longrightarrow>
   process_book offline fsys ex \<lparr> id' = k, btitle = ''Dune'', isbns = [''9780441013593''] \<rparr> (cm, w)
     = Inr (set_entry cm (js_String k) \<lparr> path = None, author = JNull \<rparr>,
            w\<lparr> net := \<lparr> outside = outside (net w) + 5,
                           requests = requests (net w) @ dune_requests \<rparr> \<rparr>)"
  by (simp add: process_book_def key_of_def coverPath_def
        offline_dune_find_cover offline_dune_author)




lemma cover_file_proto: "cover_file ''__proto__'' = ''covers/__proto__.jpg''"
  by (simp add: cover_file_plain)





text \<open>
  C10 fails for a book whose id is \<open>__proto__\<close>: \<open>loadBooks\<close> returns the
  book, the run looks it up and completes, and the written map is the empty object, so the
  id of a loaded book is not among its keys.
\<close>
theorem main_writes_no_key_for_proto_id:
  "loadBooks proto_export
     = Inr [\<lparr> id' = Some ''__proto__'', btitle = ''Dune'', isbns = [''9780441013593''] \<rparr>]
   \<and> main offline listing proto_export fresh_world =
     Inr \<lparr> disk = [''covers.json'', ''covers''], covers_json = Some Map.empty,
           net = \<lparr> outside = 5, requests = dune_requests \<rparr> \<rparr>"
  by (simp add: main_def load_proto existing_covers_def fresh_world_def
        offline_dune_process [where k = "Some ''__proto__''", simplified js_String_def, simplified]
        cover_file_proto no_cover_has_author_def set_entry_def listing_def)

text \<open>On a world that has the cover and the entry of a book 77 from an earlier run: after
  the run on the export of Dune the map has the key \<open>1\<close> alone.\<close>

lemma main_map_keys_example:
  "main (serving 1500) listing dune_export old_world =
     Inr \<lparr> disk = [''covers/1.jpg'', ''covers.json'', ''covers/77.jpg'', ''covers''],
           covers_json = Some [''1'' \<mapsto> \<lparr> path = Some ''covers/1.jpg'',
                                            author = JStr ''Frank Herbert'' \<rparr>],
           net = \<lparr> outside = 2,
                   requests = [''https://openlibrary.org/search.json?isbn=9780441013593&limit=1'',
                               ''https://covers.openlibrary.org/b/id/8231856-L.jpg''] \<rparr> \<rparr>
   \<and> existing_covers old_world ''77''
       = Some \<lparr> path = Some ''covers/77.jpg'', author = JStr ''A'' \<rparr>
   \<and> dom [''1'' \<mapsto> \<lparr> path = Some ''covers/1.jpg'', author = JStr ''Frank Herbert'' \<rparr>]
       = key_of ` set [\<lparr> id' = Some ''1'', btitle = ''Dune'', isbns = [''9780441013593''] \<rparr>]
           - {''__proto__''}"
proof -
  have h: "main (serving 1500) listing dune_export old_world =
     Inr \<lparr> disk = [''covers/1.jpg'', ''covers.json'', ''covers/77.jpg'', ''covers''],
           covers_json = Some [''1'' \<mapsto> \<lparr> path = Some ''covers/1.jpg'',
                                            author = JStr ''Frank Herbert'' \<rparr>],
           net = \<lparr> outside = 2,
                   requests = [''https://openlibrary.org/search.json?isbn=9780441013593&limit=1'',
                               ''https://covers.openlibrary.org/b/id/8231856-L.jpg''] \<rparr> \<rparr>"
    by (rule main_serving_dune_old_world)
  have e: "existing_covers old_world ''77''
       = Some \<lparr> path = Some ''covers/77.jpg'', author = JStr ''A'' \<rparr>"
    by (simp add: existing_covers_def old_world_def)
  from main_map_keys [OF h] h e show ?thesis
    by (simp add: load_dune)
qed

subsection \<open>Image sizes\<close>

lemma fetchUrl_served:
  "fetchUrl pf url s = (Inr body, s') \<Longrightarrow> serves_at_most pf n \<Longrightarrow> length body \<le> n"
  unfolding fetchUrl_def serves_at_most_def
  by (fastforce split: prod.splits option.splits response.splits if_splits)

lemma tryDirect_small:
  "serves_at_most pf 1000 \<Longrightarrow> fst (tryDirect pf i s) = None"
  by (auto simp: tryDirect_def split: prod.splits sum.splits dest: fetchUrl_served)

lemma tryOpenLibrary_small:
  "serves_at_most pf 1000 \<Longrightarrow> fst (tryOpenLibrary pf i s) = None"
  unfolding tryOpenLibrary_def
  by (auto simp: tryDirect_small split: prod.splits sum.splits dest: fetchUrl_served)

lemma tryGoogleBooks_small:
  "serves_at_most pf 2000 \<Longrightarrow> fst (tryGoogleBooks pf i s) = None"
  unfolding tryGoogleBooks_def
  by (auto split: prod.splits sum.splits dest: fetchUrl_served)

lemma tryOpenLibraryTitleSearch_small:
  "serves_at_most pf 1000 \<Longrightarrow> fst (tryOpenLibraryTitleSearch pf t s) = None"
  unfolding tryOpenLibraryTitleSearch_def
  by (auto split: prod.splits sum.splits dest: fetchUrl_served)

lemma first_found_None:
  assumes "\<And>i s. fst (attempt i s) = None"
  shows "fst (first_found attempt is s) = None"
proof (induction "is" arbitrary: s)
  case Nil
  then show ?case by simp
next
  case (Cons i rest)
  from assms [of i s] obtain s' where "attempt i s = (None, s')"
    by (cases "attempt i s") auto
  with Cons.IH [of s'] show ?case
    by simp
qed

lemma find_cover_small:
  assumes "serves_at_most pf 1000"
  shows "fst (find_cover pf b s) = None"
proof -
  have two: "serves_at_most pf 2000"
    unfolding serves_at_most_def
  proof (intro allI impI)
    fix url out statusCode body out'
    assume "respond pf url out = (Response statusCode (Some body), out')"
    with assms have "length body \<le> 1000"
      unfolding serves_at_most_def by blast
    then show "length body \<le> 2000"
      by simp
  qed
  have ol: "fst (first_found (tryOpenLibrary pf) is s0) = None" for "is" s0
    by (rule first_found_None) (rule tryOpenLibrary_small [OF assms])
  have gb: "fst (first_found (tryGoogleBooks pf) is s0) = None" for "is" s0
    by (rule first_found_None) (rule tryGoogleBooks_small [OF two])
  obtain s1 where 1: "first_found (tryOpenLibrary pf) (isbns b) s = (None, s1)"
    using ol [of "isbns b" s] by (cases "first_found (tryOpenLibrary pf) (isbns b) s") auto
  obtain s2 where 2: "first_found (tryGoogleBooks pf) (isbns b) s1 = (None, s2)"
    using gb [of "isbns b" s1] by (cases "first_found (tryGoogleBooks pf) (isbns b) s1") auto
  from 1 2 show ?thesis
    by (simp add: find_cover_def tryOpenLibraryTitleSearch_small [OF assms])
qed

text \<open>An image that is too small ends its attempt, or sends \<open>tryOpenLibrary\<close> on to the
  direct request.\<close>

lemma tryDirect_rejects:
  "fetchUrl pf (''https://covers.openlibrary.org/b/isbn/'' @ i @ ''-L.jpg'') s = (Inr body, s')
     \<Longrightarrow> length body \<le> 1000 \<Longrightarrow> tryDirect pf i s = (None, s')"
  by (simp add: tryDirect_def)

lemma tryOpenLibrary_rejects:
  "fetchJson pf (''https://openlibrary.org/search.json?isbn='' @ i @ ''&limit=1'') s
       = (Inr searchData, s1)
     \<Longrightarrow> docs_0_cover_i searchData = Inr coverId \<Longrightarrow> truthy coverId
     \<Longrightarrow> fetchUrl pf (''https://covers.openlibrary.org/b/id/'' @ template coverId @ ''-L.jpg'') s1
           = (Inr imageData, s2)
     \<Longrightarrow> length imageData \<le> 1000
     \<Longrightarrow> tryOpenLibrary pf i s = tryDirect pf i s2"
  by (simp add: tryOpenLibrary_def)

lemma tryGoogleBooks_rejects:
  "fetchJson pf (''https://www.googleapis.com/books/v1/volumes?q=isbn:'' @ i) s
       = (Inr searchData, s1)
     \<Longrightarrow> items_0 searchData = Inr item \<Longrightarrow> truthy item
     \<Longrightarrow> volume_imageLinks item = Inr imageLinks \<Longrightarrow> truthy imageLinks
     \<Longrightarrow> imageUrl imageLinks = Inr url
     \<Longrightarrow> fetchUrl pf url s1 = (Inr imageData, s2)
     \<Longrightarrow> length imageData \<le> 2000
     \<Longrightarrow> tryGoogleBooks pf i s = (None, s2)"
  by (simp add: tryGoogleBooks_def)

lemma tryOpenLibraryTitleSearch_rejects:
  "fetchJson pf (''https://openlibrary.org/search.json?title=''
                   @ encodeURIComponent (searchTitle t) @ ''&limit=5'') s = (Inr searchData, s1)
     \<Longrightarrow> docs_find searchData = Inr withCover
     \<Longrightarrow> and_then withCover (\<lambda>d. get_prop d ''cover_i'') = Inr coverId \<Longrightarrow> truthy coverId
     \<Longrightarrow> fetchUrl pf (''https://covers.openlibrary.org/b/id/'' @ template coverId @ ''-L.jpg'') s1
           = (Inr imageData, s2)
     \<Longrightarrow> length imageData \<le> 1000
     \<Longrightarrow> tryOpenLibraryTitleSearch pf t s = (None, s2)"
  by (simp add: tryOpenLibraryTitleSearch_def bindE_def)

lemma find_cover_proceeds:
  "first_found (tryOpenLibrary pf) (isbns b) s = (None, s1)
     \<Longrightarrow> find_cover pf b s =
           (case first_found (tryGoogleBooks pf) (isbns b) s1 of
              (Some r, s2) \<Rightarrow> (Some r, s2)
            | (None, s2) \<Rightarrow> tryOpenLibraryTitleSearch pf (btitle b) s2)"
  by (simp add: find_cover_def)

text \<open>
  C8. A result of \<open>tryOpenLibrary\<close> or of
  \<open>tryOpenLibraryTitleSearch\<close> has an image of more than 1000 bytes, a result of
  \<open>tryGoogleBooks\<close> one of more than 2000 bytes, and so has every result of the
  cascade \<open>find_cover\<close>. An image that does not exceed the threshold is rejected
  and the cascade goes on: a direct image of at most 1000 bytes ends
  \<open>tryDirect\<close> with no result; a cover-id image of at most 1000 bytes sends
  \<open>tryOpenLibrary\<close> on to the direct image; a Google Books image of at most 2000
  bytes ends \<open>tryGoogleBooks\<close> with no result, and a title-search image of at
  most 1000 bytes ends the title search with no result. An attempt without result makes the
  loop over the ISBNs go on with the next ISBN, and when the loop of
  \<open>tryOpenLibrary\<close> has no result \<open>find_cover\<close> goes on with the
  loop of \<open>tryGoogleBooks\<close> and then with the title search. On a network that
  serves no body of more than 1000 bytes the Open Library attempts and the whole cascade
  return no result; on one that serves no body of more than 2000 bytes
  \<open>tryGoogleBooks\<close> returns none.
\<close>
theorem small_images_never_accepted:
  "(tryOpenLibrary pf i s = (Some r, s') \<longrightarrow> 1000 < length (buffer r))
   \<and> (tryOpenLibraryTitleSearch pf t s = (Some r, s') \<longrightarrow> 1000 < length (buffer r))
   \<and> (tryGoogleBooks pf i s = (Some r, s') \<longrightarrow> 2000 < length (buffer r))
   \<and> (find_cover pf b s = (Some r, s') \<longrightarrow> 1000 < length (buffer r))
   \<and> (fetchUrl pf (''https://covers.openlibrary.org/b/isbn/'' @ i @ ''-L.jpg'') s = (Inr body, s')
        \<and> length body \<le> 1000
      \<longrightarrow> tryDirect pf i s = (None, s'))
   \<and> (fetchJson pf (''https://openlibrary.org/search.json?isbn='' @ i @ ''&limit=1'') s
          = (Inr searchData, s1)
        \<and> docs_0_cover_i searchData = Inr coverId \<and> truthy coverId
        \<and> fetchUrl pf (''https://covers.openlibrary.org/b/id/'' @ template coverId @ ''-L.jpg'') s1
            = (Inr imageData, s2)
        \<and> length imageData \<le> 1000
      \<longrightarrow> tryOpenLibrary pf i s = tryDirect pf i s2)
   \<and> (fetchJson pf (''https://www.googleapis.com/books/v1/volumes?q=isbn:'' @ i) s
          = (Inr searchData, s1)
        \<and> items_0 searchData = Inr item \<and> truthy item
        \<and> volume_imageLinks item = Inr imageLinks \<and> truthy imageLinks
        \<and> imageUrl imageLinks = Inr url
        \<and> fetchUrl pf url s1 = (Inr imageData, s2)
        \<and> length imageData \<le> 2000
      \<longrightarrow> tryGoogleBooks pf i s = (None, s2))
   \<and> (fetchJson pf (''https://openlibrary.org/search.json?title=''
                      @ encodeURIComponent (searchTitle t) @ ''&limit=5'') s = (Inr searchData, s1)
        \<and> docs_find searchData = Inr withCover
        \<and> and_then withCover (\<lambda>d. get_prop d ''cover_i'') = Inr coverId \<and> truthy coverId
        \<and> fetchUrl pf (''https://covers.openlibrary.org/b/id/'' @ template coverId @ ''-L.jpg'') s1
            = (Inr imageData, s2)
        \<and> length imageData \<le> 1000
      \<longrightarrow> tryOpenLibraryTitleSearch pf t s = (None, s2))
   \<and> (attempt i s = (None, s')
      \<longrightarrow> first_found attempt (i # rest) s = first_found attempt rest s')
   \<and> (first_found (tryOpenLibrary pf) (isbns b) s = (None, s1)
      \<longrightarrow> find_cover pf b s =
            (case first_found (tryGoogleBooks pf) (isbns b) s1 of
               (Some r, s2) \<Rightarrow> (Some r, s2)
             | (None, s2) \<Rightarrow> tryOpenLibraryTitleSearch pf (btitle b) s2))
   \<and> (serves_at_most pf 1000 \<longrightarrow>
        fst (tryOpenLibrary pf i s) = None \<and> fst (tryOpenLibraryTitleSearch pf t s) = None
        \<and> fst (find_cover pf b s) = None)
   \<and> (serves_at_most pf 2000 \<longrightarrow> fst (tryGoogleBooks pf i s) = None)"
proof (intro conjI impI)
  show "1000 < length (buffer r)" if "tryOpenLibrary pf i s = (Some r, s')"
    using that by (rule tryOpenLibrary_Some [THEN conjunct1])
  show "1000 < length (buffer r)" if "tryOpenLibraryTitleSearch pf t s = (Some r, s')"
    using that by (rule tryOpenLibraryTitleSearch_Some [THEN conjunct1])
  show "2000 < length (buffer r)" if "tryGoogleBooks pf i s = (Some r, s')"
    using that by (rule tryGoogleBooks_Some [THEN conjunct1])
  show "1000 < length (buffer r)" if "find_cover pf b s = (Some r, s')"
    using that by (rule find_cover_Some [THEN conjunct1])
  show "tryDirect pf i s = (None, s')"
    if "fetchUrl pf (''https://covers.openlibrary.org/b/isbn/'' @ i @ ''-L.jpg'') s = (Inr body, s')
        \<and> length body \<le> 1000"
    using that tryDirect_rejects [of pf i s body s'] by blast
  show "tryOpenLibrary pf i s = tryDirect pf i s2"
    if "fetchJson pf (''https://openlibrary.org/search.json?isbn='' @ i @ ''&limit=1'') s
          = (Inr searchData, s1)
        \<and> docs_0_cover_i searchData = Inr coverId \<and> truthy coverId
        \<and> fetchUrl pf (''https://covers.openlibrary.org/b/id/'' @ template coverId @ ''-L.jpg'') s1
            = (Inr imageData, s2)
        \<and> length imageData \<le> 1000"
    using that tryOpenLibrary_rejects [of pf i s searchData s1 coverId imageData s2] by blast
  show "tryGoogleBooks pf i s = (None, s2)"
    if "fetchJson pf (''https://www.googleapis.com/books/v1/volumes?q=isbn:'' @ i) s
          = (Inr searchData, s1)
        \<and> items_0 searchData = Inr item \<and> truthy item
        \<and> volume_imageLinks item = Inr imageLinks \<and> truthy imageLinks
        \<and> imageUrl imageLinks = Inr url
        \<and> fetchUrl pf url s1 = (Inr imageData, s2)
        \<and> length imageData \<le> 2000"
    using that tryGoogleBooks_rejects [of pf i s searchData s1 item imageLinks url imageData s2]
    by blast
  show "tryOpenLibraryTitleSearch pf t s = (None, s2)"
    if "fetchJson pf (''https://openlibrary.org/search.json?title=''
                      @ encodeURIComponent (searchTitle t) @ ''&limit=5'') s = (Inr searchData, s1)
        \<and> docs_find searchData = Inr withCover
        \<and> and_then withCover (\<lambda>d. get_prop d ''cover_i'') = Inr coverId \<and> truthy coverId
        \<and> fetchUrl pf (''https://covers.openlibrary.org/b/id/'' @ template coverId @ ''-L.jpg'') s1
            = (Inr imageData, s2)
        \<and> length imageData \<le> 1000"
    using that
      tryOpenLibraryTitleSearch_rejects [of pf t s searchData s1 withCover coverId imageData s2]
    by blast
  show "first_found attempt (i # rest) s = first_found attempt rest s'"
    if "attempt i s = (None, s')"
    using that by simp
  show "find_cover pf b s =
            (case first_found (tryGoogleBooks pf) (isbns b) s1 of
               (Some r, s2) \<Rightarrow> (Some r, s2)
             | (None, s2) \<Rightarrow> tryOpenLibraryTitleSearch pf (btitle b) s2)"
    if "first_found (tryOpenLibrary pf) (isbns b) s = (None, s1)"
    using that by (rule find_cover_proceeds)
  show "fst (tryOpenLibrary pf i s) = None" if "serves_at_most pf 1000"
    using that by (rule tryOpenLibrary_small)
  show "fst (tryOpenLibraryTitleSearch pf t s) = None" if "serves_at_most pf 1000"
    using that by (rule tryOpenLibraryTitleSearch_small)
  show "fst (find_cover pf b s) = None" if "serves_at_most pf 1000"
    using that by (rule find_cover_small)
  show "fst (tryGoogleBooks pf i s) = None" if "serves_at_most pf 2000"
    using that by (rule tryGoogleBooks_small)
qed

lemma example_docs_find:
  "docs_find example_search
     = Inr (Some (JObj [(''cover_i'', JNum 8231856),
                        (''author_name'', JArr [JStr ''Frank Herbert''])]))"
  by code_simp

lemma example_found_cover_i:
  "and_then (Some (JObj [(''cover_i'', JNum 8231856),
                         (''author_name'', JArr [JStr ''Frank Herbert''])]))
            (\<lambda>d. get_prop d ''cover_i'')
     = Inr (Some (JNum 8231856))"
  by code_simp

lemma example_found_author:
  "author_name_0 (Some (JObj [(''cover_i'', JNum 8231856),
                              (''author_name'', JArr [JStr ''Frank Herbert''])]))
     = Inr (JStr ''Frank Herbert'')"
  by code_simp

lemma serving_tryGoogleBooks:
  "2000 < len ''https://books.example/img?id=1'' \<Longrightarrow>
   tryGoogleBooks (serving_by len) i s =
     (Some \<lparr> buffer = replicate (len ''https://books.example/img?id=1'') 0,
             found_author = JStr ''F. Herbert'' \<rparr>,
      \<lparr> outside = Suc (Suc (outside s)),
        requests = requests s @ [''https://www.googleapis.com/books/v1/volumes?q=isbn:'' @ i,
                                 ''https://books.example/img?id=1''] \<rparr>)"
  by (simp add: tryGoogleBooks_def serving_fetchJson serving_fetchUrl example_item
        example_imageLinks example_imageUrl example_volume_author or_null_def)

lemma serving_tryOpenLibraryTitleSearch:
  "1000 < len \<Longrightarrow>
   tryOpenLibraryTitleSearch (serving len) ''Dune'' s =
     (Some \<lparr> buffer = replicate len 0, found_author = JStr ''Frank Herbert'' \<rparr>,
      \<lparr> outside = Suc (Suc (outside s)),
        requests = requests s @ [''https://openlibrary.org/search.json?title=Dune&limit=5'',
                                 ''https://covers.openlibrary.org/b/id/8231856-L.jpg''] \<rparr>)"
  by (simp add: tryOpenLibraryTitleSearch_def serving_def serving_fetchJson serving_fetchUrl
        dune_searchTitle example_docs_find example_found_cover_i example_found_author
        template_cover_i bindE_def)

lemma small_then_large_values:
  "small_then_large ''https://covers.openlibrary.org/b/id/8231856-L.jpg'' = 900"
  "small_then_large ''https://covers.openlibrary.org/b/isbn/9780441013593-L.jpg'' = 900"
  "small_then_large ''https://books.example/img?id=1'' = 2500"
  by (simp_all add: small_then_large_def)

text \<open>
  C8, at the thresholds: Open Library images of 1001 bytes are accepted and of 1000 bytes
  rejected, by the ISBN attempt (which then asks for the direct image) and by the title
  search; a Google Books image of 2001 bytes is accepted and one of 2000 bytes rejected. On
  the network that serves 900 bytes for every Open Library image and 2500 bytes for the
  Google Books link, the cascade rejects both Open Library images, goes on to Google Books
  and returns its image.
\<close>
theorem small_images_never_accepted_witness:
  "tryOpenLibrary (serving 1001) ''9780441013593'' \<lparr> outside = 0, requests = [] \<rparr>
     = (Some \<lparr> buffer = replicate 1001 0, found_author = JStr ''Frank Herbert'' \<rparr>,
        \<lparr> outside = 2,
          requests = [''https://openlibrary.org/search.json?isbn=9780441013593&limit=1'',
                      ''https://covers.openlibrary.org/b/id/8231856-L.jpg''] \<rparr>)
   \<and> tryOpenLibrary (serving 1000) ''9780441013593'' \<lparr> outside = 0, requests = [] \<rparr>
     = (None,
        \<lparr> outside = 3,
          requests = [''https://openlibrary.org/search.json?isbn=9780441013593&limit=1'',
                      ''https://covers.openlibrary.org/b/id/8231856-L.jpg'',
                      ''https://covers.openlibrary.org/b/isbn/9780441013593-L.jpg''] \<rparr>)
   \<and> tryOpenLibraryTitleSearch (serving 1001) ''Dune'' \<lparr> outside = 0, requests = [] \<rparr>
     = (Some \<lparr> buffer = replicate 1001 0, found_author = JStr ''Frank Herbert'' \<rparr>,
        \<lparr> outside = 2,
          requests = [''https://openlibrary.org/search.json?title=Dune&limit=5'',
                      ''https://covers.openlibrary.org/b/id/8231856-L.jpg''] \<rparr>)
   \<and> tryOpenLibraryTitleSearch (serving 1000) ''Dune'' \<lparr> outside = 0, requests = [] \<rparr>
     = (None,
        \<lparr> outside = 2,
          requests = [''https://openlibrary.org/search.json?title=Dune&limit=5'',
                      ''https://covers.openlibrary.org/b/id/8231856-L.jpg''] \<rparr>)
   \<and> tryGoogleBooks (serving 2001) ''9780441013593'' \<lparr> outside = 0, requests = [] \<rparr>
     = (Some \<lparr> buffer = replicate 2001 0, found_author = JStr ''F. Herbert'' \<rparr>,
        \<lparr> outside = 2,
          requests = [''https://www.googleapis.com/books/v1/volumes?q=isbn:9780441013593'',
                      ''https://books.example/img?id=1''] \<rparr>)
   \<and> tryGoogleBooks (serving 2000) ''9780441013593'' \<lparr> outside = 0, requests = [] \<rparr>
     = (None,
        \<lparr> outside = 2,
          requests = [''https://www.googleapis.com/books/v1/volumes?q=isbn:9780441013593'',
                      ''https://books.example/img?id=1''] \<rparr>)
   \<and> find_cover (serving_by small_then_large)
        \<lparr> id' = Some ''1'', btitle = ''Dune'', isbns = [''9780441013593''] \<rparr>
        \<lparr> outside = 0, requests = [] \<rparr>
     = (Some \<lparr> buffer = replicate 2500 0, found_author = JStr ''F. Herbert'' \<rparr>,
        \<lparr> outside = 5,
          requests = [''https://openlibrary.org/search.json?isbn=9780441013593&limit=1'',
                      ''https://covers.openlibrary.org/b/id/8231856-L.jpg'',
                      ''https://covers.openlibrary.org/b/isbn/9780441013593-L.jpg'',
                      ''https://www.googleapis.com/books/v1/volumes?q=isbn:9780441013593'',
                      ''https://books.example/img?id=1''] \<rparr>)
   \<and> 1000 < length (buffer \<lparr> buffer = replicate 1001 0, found_author = JStr ''Frank Herbert'' \<rparr>)
   \<and> 2000 < length (buffer \<lparr> buffer = replicate 2001 0, found_author = JStr ''F. Herbert'' \<rparr>)
   \<and> 1000 < length (buffer \<lparr> buffer = replicate 2500 0, found_author = JStr ''F. Herbert'' \<rparr>)
   \<and> serves_at_most (serving 1000) 1000
   \<and> fst (find_cover (serving 1000)
             \<lparr> id' = Some ''1'', btitle = ''Dune'', isbns = [''9780441013593''] \<rparr>
             \<lparr> outside = 0, requests = [] \<rparr>) = None
   \<and> serves_at_most (serving 2000) 2000
   \<and> fst (tryGoogleBooks (serving 2000) ''9780441013593'' \<lparr> outside = 0, requests = [] \<rparr>) = None"
proof -
  let ?i = "''9780441013593''"
  let ?b = "\<lparr> id' = Some ''1'', btitle = ''Dune'', isbns = [''9780441013593''] \<rparr>"
  let ?s0 = "\<lparr> outside = 0, requests = [] \<rparr> :: nat net"
  let ?ol = "''https://openlibrary.org/search.json?isbn=9780441013593&limit=1''"
  let ?img = "''https://covers.openlibrary.org/b/id/8231856-L.jpg''"
  let ?direct = "''https://covers.openlibrary.org/b/isbn/9780441013593-L.jpg''"
  let ?gb = "''https://www.googleapis.com/books/v1/volumes?q=isbn:9780441013593''"
  let ?link = "''https://books.example/img?id=1''"
  let ?ts = "''https://openlibrary.org/search.json?title=Dune&limit=5''"
  let ?s1 = "\<lparr> outside = 1, requests = [?ol] \<rparr> :: nat net"
  let ?s2 = "\<lparr> outside = 2, requests = [?ol, ?img] \<rparr> :: nat net"
  let ?s3 = "\<lparr> outside = 3, requests = [?ol, ?img, ?direct] \<rparr> :: nat net"
  let ?s5 = "\<lparr> outside = 5, requests = [?ol, ?img, ?direct, ?gb, ?link] \<rparr> :: nat net"
  let ?g1 = "\<lparr> outside = 1, requests = [?gb] \<rparr> :: nat net"
  let ?g2 = "\<lparr> outside = 2, requests = [?gb, ?link] \<rparr> :: nat net"
  let ?t1 = "\<lparr> outside = 1, requests = [?ts] \<rparr> :: nat net"
  let ?t2 = "\<lparr> outside = 2, requests = [?ts, ?img] \<rparr> :: nat net"
  let ?doc = "Some (JObj [(''cover_i'', JNum 8231856),
                          (''author_name'', JArr [JStr ''Frank Herbert''])])"
  let ?item = "Some (JObj [(''volumeInfo'',
              JObj [(''imageLinks'',
                       JObj [(''thumbnail'', JStr ''http://books.example/img?id=1&edge=curl'')]),
                    (''authors'', JArr [JStr ''F. Herbert''])])])"
  let ?links = "Some (JObj [(''thumbnail'', JStr ''http://books.example/img?id=1&edge=curl'')])"
  let ?r1 = "\<lparr> buffer = replicate 1001 0, found_author = JStr ''Frank Herbert'' \<rparr>"
  let ?r2 = "\<lparr> buffer = replicate 2001 0, found_author = JStr ''F. Herbert'' \<rparr>"
  let ?r3 = "\<lparr> buffer = replicate 2500 0, found_author = JStr ''F. Herbert'' \<rparr>"
  note T = small_images_never_accepted
  note A1 = T [THEN conjunct1, rule_format]
  note A2 = T [THEN conjunct2, THEN conjunct1, rule_format]
  note A3 = T [THEN conjunct2, THEN conjunct2, THEN conjunct1, rule_format]
  note A4 = T [THEN conjunct2, THEN conjunct2, THEN conjunct2, THEN conjunct1, rule_format]
  note B1 = T [THEN conjunct2, THEN conjunct2, THEN conjunct2, THEN conjunct2, THEN conjunct1, rule_format]
  note B2 = T [THEN conjunct2, THEN conjunct2, THEN conjunct2, THEN conjunct2, THEN conjunct2, THEN conjunct1, rule_format]
  note B3 = T [THEN conjunct2, THEN conjunct2, THEN conjunct2, THEN conjunct2, THEN conjunct2, THEN conjunct2, THEN conjunct1, rule_format]
  note B4 = T [THEN conjunct2, THEN conjunct2, THEN conjunct2, THEN conjunct2, THEN conjunct2, THEN conjunct2, THEN conjunct2, THEN conjunct1, rule_format]
  note C1 = T [THEN conjunct2, THEN conjunct2, THEN conjunct2, THEN conjunct2, THEN conjunct2, THEN conjunct2, THEN conjunct2, THEN conjunct2, THEN conjunct1, rule_format]
  note C2 = T [THEN conjunct2, THEN conjunct2, THEN conjunct2, THEN conjunct2, THEN conjunct2, THEN conjunct2, THEN conjunct2, THEN conjunct2, THEN conjunct2, THEN conjunct1, rule_format]
  note D1 = T [THEN conjunct2, THEN conjunct2, THEN conjunct2, THEN conjunct2, THEN conjunct2, THEN conjunct2, THEN conjunct2, THEN conjunct2, THEN conjunct2, THEN conjunct2, THEN conjunct1, rule_format]
  note D2 = T [THEN conjunct2, THEN conjunct2, THEN conjunct2, THEN conjunct2, THEN conjunct2, THEN conjunct2, THEN conjunct2, THEN conjunct2, THEN conjunct2, THEN conjunct2, THEN conjunct2, rule_format]
  have truthy_id: "truthy (Some (JNum 8231856))"
    by simp
  have truthy_item: "truthy ?item"
    by simp
  have truthy_links: "truthy ?links"
    by simp
  text \<open>Images of 1001 and of 1000 bytes from Open Library.\<close>
  have a1: "tryOpenLibrary (serving 1001) ?i ?s0 = (Some ?r1, ?s2)"
    by (simp add: serving_tryOpenLibrary)
  have l1: "1000 < length (buffer ?r1)"
    by (rule A1 [OF a1])
  have f1: "fetchJson (serving 1000) (''https://openlibrary.org/search.json?isbn='' @ ?i @ ''&limit=1'') ?s0
              = (Inr example_search, ?s1)"
    by (simp add: serving_def serving_fetchJson)
  have f2: "fetchUrl (serving 1000)
              (''https://covers.openlibrary.org/b/id/'' @ template (Some (JNum 8231856)) @ ''-L.jpg'') ?s1
              = (Inr (replicate 1000 0), ?s2)"
    by (simp add: serving_def serving_fetchUrl template_cover_i)
  have f3: "fetchUrl (serving 1000) (''https://covers.openlibrary.org/b/isbn/'' @ ?i @ ''-L.jpg'') ?s2
              = (Inr (replicate 1000 0), ?s3)"
    by (simp add: serving_def serving_fetchUrl)
  have b2: "tryOpenLibrary (serving 1000) ?i ?s0 = tryDirect (serving 1000) ?i ?s2"
    by (rule B2 [OF conjI [OF f1 conjI [OF example_cover_i conjI [OF truthy_id conjI [OF f2]]]]])
       simp
  have b1: "tryDirect (serving 1000) ?i ?s2 = (None, ?s3)"
    by (rule B1 [OF conjI [OF f3]]) simp
  have b12: "tryOpenLibrary (serving 1000) ?i ?s0 = (None, ?s3)"
    by (simp only: b2 b1)
  have t1: "fetchJson (serving 1000)
              (''https://openlibrary.org/search.json?title=''
                 @ encodeURIComponent (searchTitle ''Dune'') @ ''&limit=5'') ?s0
              = (Inr example_search, ?t1)"
    by (simp add: serving_def serving_fetchJson dune_searchTitle)
  have t2: "fetchUrl (serving 1000)
              (''https://covers.openlibrary.org/b/id/'' @ template (Some (JNum 8231856)) @ ''-L.jpg'') ?t1
              = (Inr (replicate 1000 0), ?t2)"
    by (simp add: serving_def serving_fetchUrl template_cover_i)
  have a2: "tryOpenLibraryTitleSearch (serving 1001) ''Dune'' ?s0 = (Some ?r1, ?t2)"
    by (simp add: serving_tryOpenLibraryTitleSearch)
  have b4: "tryOpenLibraryTitleSearch (serving 1000) ''Dune'' ?s0 = (None, ?t2)"
    by (rule B4 [OF conjI [OF t1 conjI [OF example_docs_find
                  conjI [OF example_found_cover_i conjI [OF truthy_id conjI [OF t2]]]]]])
       simp
  text \<open>Images of 2001 and of 2000 bytes from the Google Books link.\<close>
  have a3: "tryGoogleBooks (serving 2001) ?i ?s0 = (Some ?r2, ?g2)"
    by (simp add: serving_def serving_tryGoogleBooks)
  have l2: "2000 < length (buffer ?r2)"
    by (rule A3 [OF a3])
  have g1: "fetchJson (serving 2000) (''https://www.googleapis.com/books/v1/volumes?q=isbn:'' @ ?i) ?s0
              = (Inr example_search, ?g1)"
    by (simp add: serving_def serving_fetchJson)
  have g2: "fetchUrl (serving 2000) ?link ?g1 = (Inr (replicate 2000 0), ?g2)"
    by (simp add: serving_def serving_fetchUrl)
  have b3: "tryGoogleBooks (serving 2000) ?i ?s0 = (None, ?g2)"
    by (rule B3 [OF conjI [OF g1 conjI [OF example_item conjI [OF truthy_item
                  conjI [OF example_imageLinks conjI [OF truthy_links
                  conjI [OF example_imageUrl conjI [OF g2]]]]]]]])
       simp
  text \<open>Small images from Open Library, then a large one from Google Books.\<close>
  have c1: "fetchJson (serving_by small_then_large)
              (''https://openlibrary.org/search.json?isbn='' @ ?i @ ''&limit=1'') ?s0
              = (Inr example_search, ?s1)"
    by (simp add: serving_fetchJson)
  have c2: "fetchUrl (serving_by small_then_large)
              (''https://covers.openlibrary.org/b/id/'' @ template (Some (JNum 8231856)) @ ''-L.jpg'') ?s1
              = (Inr (replicate 900 0), ?s2)"
    by (simp add: serving_fetchUrl template_cover_i small_then_large_values)
  have c3: "fetchUrl (serving_by small_then_large)
              (''https://covers.openlibrary.org/b/isbn/'' @ ?i @ ''-L.jpg'') ?s2
              = (Inr (replicate 900 0), ?s3)"
    by (simp add: serving_fetchUrl small_then_large_values)
  have c4: "tryOpenLibrary (serving_by small_then_large) ?i ?s0
              = tryDirect (serving_by small_then_large) ?i ?s2"
    by (rule B2 [OF conjI [OF c1 conjI [OF example_cover_i conjI [OF truthy_id conjI [OF c2]]]]])
       simp
  have c5: "tryDirect (serving_by small_then_large) ?i ?s2 = (None, ?s3)"
    by (rule B1 [OF conjI [OF c3]]) simp
  have c45: "tryOpenLibrary (serving_by small_then_large) ?i ?s0 = (None, ?s3)"
    by (simp only: c4 c5)
  have c6: "first_found (tryOpenLibrary (serving_by small_then_large)) [?i] ?s0
              = first_found (tryOpenLibrary (serving_by small_then_large)) [] ?s3"
    by (rule C1 [where attempt = "tryOpenLibrary (serving_by small_then_large)", OF c45])
  have c6': "first_found (tryOpenLibrary (serving_by small_then_large)) (isbns ?b) ?s0 = (None, ?s3)"
    using c6 by simp
  have c7: "find_cover (serving_by small_then_large) ?b ?s0 =
              (case first_found (tryGoogleBooks (serving_by small_then_large)) (isbns ?b) ?s3 of
                 (Some r, s2) \<Rightarrow> (Some r, s2)
               | (None, s2) \<Rightarrow>
                   tryOpenLibraryTitleSearch (serving_by small_then_large) (btitle ?b) s2)"
    by (rule C2 [OF c6'])
  have c8: "tryGoogleBooks (serving_by small_then_large) ?i ?s3 = (Some ?r3, ?s5)"
    by (simp add: serving_tryGoogleBooks small_then_large_values)
  have c9: "find_cover (serving_by small_then_large) ?b ?s0 = (Some ?r3, ?s5)"
    by (simp add: c7 c8)
  have l3: "1000 < length (buffer ?r3)"
    by (rule A4 [OF c9])
  text \<open>Networks that serve nothing above a threshold.\<close>
  have d1: "serves_at_most (serving 1000) 1000"
    by (simp add: serves_at_most_def serving_def serving_by_def)
  have d2: "serves_at_most (serving 2000) 2000"
    by (simp add: serves_at_most_def serving_def serving_by_def)
  have d3: "fst (find_cover (serving 1000) ?b ?s0) = None"
    using D1 [OF d1] by blast
  have d4: "fst (tryGoogleBooks (serving 2000) ?i ?s0) = None"
    by (rule D2 [OF d2])
  show ?thesis
    by (intro conjI) (fact a1 b12 a2 b4 a3 b3 c9 l1 l2 l3 d1 d3 d2 d4)+
qed

subsection \<open>Failures of the lookups\<close>

lemma process_book_Inl:
  "process_book pf fsys ex b st = Inl e \<Longrightarrow> e = IOError"
  by (auto simp: process_book_def Let_def split: prod.splits option.splits if_splits)

lemma process_all_Inl:
  "process_all pf fsys ex bs st = Inl e \<Longrightarrow> e = IOError"
  by (induction bs arbitrary: st) (auto split: sum.splits dest: process_book_Inl)

lemma main_Inl:
  "main pf fsys file w = Inl e \<Longrightarrow> loadBooks file = Inl e \<or> e = IOError"
  by (auto simp: main_def Let_def split: sum.splits prod.splits option.splits
        dest: process_all_Inl)

lemma process_book_total:
  assumes "\<And>d p c. writeFileSync fsys d p c \<noteq> None"
  shows "\<exists>st'. process_book pf fsys ex b st = Inr st'"
proof (cases st)
  case (Pair cm w)
  show ?thesis
  proof (cases "find_cover pf b (net w)")
    case (Pair res s)
    obtain d where "writeFileSync fsys (disk w) (coverPath b) (Image (buffer (the res))) = Some d"
      using assms [of "disk w" "coverPath b" "Image (buffer (the res))"] by auto
    with \<open>st = (cm, w)\<close> Pair show ?thesis
      by (cases res) (auto simp: process_book_def Let_def split: prod.splits)
  qed
qed

lemma process_all_total:
  assumes "\<And>d p c. writeFileSync fsys d p c \<noteq> None"
  shows "\<exists>st'. process_all pf fsys ex bs st = Inr st'"
proof (induction bs arbitrary: st)
  case Nil
  then show ?case by simp
next
  case (Cons b bs)
  from process_book_total [OF assms, of pf ex b st]
  obtain st1 where "process_book pf fsys ex b st = Inr st1"
    by auto
  with Cons.IH [of st1] show ?case
    by simp
qed

lemma main_total:
  assumes "loadBooks file = Inr bs" and "\<And>d p c. writeFileSync fsys d p c \<noteq> None"
  shows "\<exists>w'. main pf fsys file w = Inr w'"
proof -
  from process_all_total [OF assms(2), of pf "existing_covers w" bs "(Map.empty, w)"]
  obtain cm w1 where 1: "process_all pf fsys (existing_covers w) bs (Map.empty, w) = Inr (cm, w1)"
    by auto
  from assms(2) [of "disk w1" "''covers.json''" "MapJson cm"]
  obtain d where "writeFileSync fsys (disk w1) ''covers.json'' (MapJson cm) = Some d"
    by auto
  with 1 assms(1) show ?thesis
    by (simp add: main_def)
qed

text \<open>
  A request that is rejected, or a response that does not parse, ends the lookup it
  belongs to with no result: the ISBN search of \<open>tryOpenLibrary\<close>, its direct image
  request, the search of \<open>tryGoogleBooks\<close>, the title search, and each step of
  \<open>tryGetAuthorOnly\<close>, whose loop goes on with the next ISBN. \<open>main\<close> returns whenever
  \<open>loadBooks\<close> does and no write throws, whatever the network answers, and an error of
  \<open>main\<close> is the error of \<open>loadBooks\<close> or that of a write.
\<close>

lemma lookup_failures_caught:
  "(fst (fetchJson pf (''https://openlibrary.org/search.json?isbn='' @ i @ ''&limit=1'') s) = Inl e
      \<longrightarrow> fst (tryOpenLibrary pf i s) = None)
   \<and> (fst (fetchUrl pf (''https://covers.openlibrary.org/b/isbn/'' @ i @ ''-L.jpg'') s) = Inl e
      \<longrightarrow> fst (tryDirect pf i s) = None)
   \<and> (fst (fetchJson pf (''https://www.googleapis.com/books/v1/volumes?q=isbn:'' @ i) s) = Inl e
      \<longrightarrow> fst (tryGoogleBooks pf i s) = None
          \<and> author_by_isbn pf (i # rest) s
              = author_by_isbn pf rest
                  (snd (fetchJson pf (''https://www.googleapis.com/books/v1/volumes?q=isbn:'' @ i) s)))
   \<and> (fst (fetchJson pf (''https://openlibrary.org/search.json?title=''
                           @ encodeURIComponent (searchTitle t) @ ''&limit=5'') s) = Inl e
      \<longrightarrow> fst (tryOpenLibraryTitleSearch pf t s) = None)
   \<and> (fst (fetchJson pf (''https://openlibrary.org/search.json?title=''
                           @ encodeURIComponent (searchTitle t) @ ''&limit=1'') s) = Inl e
      \<longrightarrow> fst (author_by_title pf t s) = JNull)
   \<and> (loadBooks file = Inr bs \<and> (\<forall>d p c. writeFileSync fsys d p c \<noteq> None)
      \<longrightarrow> (\<exists>w'. main pf fsys file w = Inr w'))
   \<and> (main pf fsys file w = Inl e' \<longrightarrow> loadBooks file = Inl e' \<or> e' = IOError)"
proof -
  have 1: "fst (fetchJson pf (''https://openlibrary.org/search.json?isbn='' @ i @ ''&limit=1'') s) = Inl e
      \<longrightarrow> fst (tryOpenLibrary pf i s) = None"
    by (auto simp: tryOpenLibrary_def split: prod.splits sum.splits)
  have 2: "fst (fetchUrl pf (''https://covers.openlibrary.org/b/isbn/'' @ i @ ''-L.jpg'') s) = Inl e
      \<longrightarrow> fst (tryDirect pf i s) = None"
    by (auto simp: tryDirect_def split: prod.splits sum.splits)
  have 3: "fst (fetchJson pf (''https://www.googleapis.com/books/v1/volumes?q=isbn:'' @ i) s) = Inl e
      \<longrightarrow> fst (tryGoogleBooks pf i s) = None
          \<and> author_by_isbn pf (i # rest) s
              = author_by_isbn pf rest
                  (snd (fetchJson pf (''https://www.googleapis.com/books/v1/volumes?q=isbn:'' @ i) s))"
    by (auto simp: tryGoogleBooks_def split: prod.splits sum.splits)
  have 4: "fst (fetchJson pf (''https://openlibrary.org/search.json?title=''
                           @ encodeURIComponent (searchTitle t) @ ''&limit=5'') s) = Inl e
      \<longrightarrow> fst (tryOpenLibraryTitleSearch pf t s) = None"
    by (auto simp: tryOpenLibraryTitleSearch_def split: prod.splits sum.splits)
  have 5: "fst (fetchJson pf (''https://openlibrary.org/search.json?title=''
                           @ encodeURIComponent (searchTitle t) @ ''&limit=1'') s) = Inl e
      \<longrightarrow> fst (author_by_title pf t s) = JNull"
    by (auto simp: author_by_title_def split: prod.splits sum.splits)
  have 6: "loadBooks file = Inr bs \<and> (\<forall>d p c. writeFileSync fsys d p c \<noteq> None)
      \<longrightarrow> (\<exists>w'. main pf fsys file w = Inr w')"
    using main_total [of "file" bs fsys pf w] by blast
  have 7: "main pf fsys file w = Inl e' \<longrightarrow> loadBooks file = Inl e' \<or> e' = IOError"
    using main_Inl by blast
  from 1 2 3 4 5 6 7 show ?thesis
    by blast
qed

lemma flat_processBooks:
  "processBooks example_dates flat_export initial_state =
     Inr \<lparr> finishedBooks =
             [\<lparr> nb_title = Some ''Dune'', nb_bookId = Some ''1'', nb_isbns = [''9780441013593''],
                nb_date = Some ''2023-05-01'', nb_year = Some 2023 \<rparr>],
           savedBooks = [], activeTab = ''finished'' \<rparr>"
  by code_simp

text \<open>
  C9 fails for an export in the flat shape: the file parses, \<open>loadBooks\<close> throws
  a TypeError on it and the run ends there, on any network and any file system, while
  \<open>processBooks\<close> reads the same export.
\<close>
theorem main_aborts_on_flat_export:
  "main pf fsys (Some flat_export) w = Inl TypeError
   \<and> processBooks example_dates flat_export initial_state =
     Inr \<lparr> finishedBooks =
             [\<lparr> nb_title = Some ''Dune'', nb_bookId = Some ''1'', nb_isbns = [''9780441013593''],
                nb_date = Some ''2023-05-01'', nb_year = Some 2023 \<rparr>],
           savedBooks = [], activeTab = ''finished'' \<rparr>"
  by (simp add: main_def loadBooks_def flat_export_def flat_processBooks [unfolded flat_export_def])

end
